theory Spec2Isabelle
  imports Main
begin

unbundle bit_operations_syntax

section \<open>Exceptions and strings\<close>

text \<open>
  The embedding follows \<^verbatim>\<open>src/subprocess.hpp\<close>. Member names lose their trailing
  underscore (\<^verbatim>\<open>write_to_child_\<close> is \<open>write_to_child\<close>), which Isabelle does not
  accept in a constant's name.

  \<^verbatim>\<open>OSError(msg, code)\<close> keeps its two constructor arguments; its \<^verbatim>\<open>what()\<close> is
  \<^verbatim>\<open>msg + " : " + strerror(code)\<close>. \<open>Std_exception\<close> is an object whose dynamic type
  is the base class \<^verbatim>\<open>std::exception\<close>: the result of copying an exception through a
  reference of that static type.
\<close>

datatype exn = OSError string int | CalledProcessError string | Std_exception

definition what :: "(int \<Rightarrow> string) \<Rightarrow> exn \<Rightarrow> string" where
  "what strerr e =
     (case e of
        OSError m c \<Rightarrow> m @ '' : '' @ strerr c
      | CalledProcessError m \<Rightarrow> m
      | Std_exception \<Rightarrow> ''std::exception'')"

text \<open>\<^verbatim>\<open>std::string::c_str()\<close> read as a C string: the characters before the first NUL.\<close>

definition c_str :: "string \<Rightarrow> string" where
  "c_str s = takeWhile (\<lambda>c. c \<noteq> CHR 0x00) s"

definition EINTR :: int where "EINTR = 4"
definition EBADF :: int where "EBADF = 9"
definition ECHILD :: int where "ECHILD = 10"
definition EINVAL :: int where "EINVAL = 22"
definition EAGAIN :: int where "EAGAIN = 11"
definition EMFILE :: int where "EMFILE = 24"

section \<open>The operating system as one process sees it\<close>

text \<open>
  A descriptor table maps a descriptor number to the open file description it names and
  its close-on-exec flag. Every system call the code makes is appended to \<open>calls\<close>,
  with its arguments, whether it succeeds or not. What the code cannot decide (whether
  a path opens, what \<^verbatim>\<open>fork\<close> and \<^verbatim>\<open>waitpid\<close> return, what the error channel delivers)
  is a field of the world.
\<close>

datatype oflag = O_RDONLY | O_APPEND_CREAT_RDWR

datatype syscall =
    Sys_close int
  | Sys_dup int
  | Sys_dup2 int int
  | Sys_getfd int
  | Sys_setfd int int
  | Sys_pipe
  | Sys_open string oflag
  | Sys_read int nat
  | Sys_write int string
  | Sys_fork
  | Sys_waitpid int
  | Sys_sysconf
  | Sys_chdir string
  | Sys_setenv string string
  | Sys_execvp string

text \<open>
  One delivery of the error channel to a \<^verbatim>\<open>read\<close>: bytes, or a failure with its
  \<^verbatim>\<open>errno\<close>. The end of the list is end-of-data (every write end is closed).
\<close>

datatype rd_event = Bytes string | Failed int

text \<open>
  The buffering modes of \<^verbatim>\<open>setvbuf\<close>. When \<^verbatim>\<open>setvbuf\<close> is given no buffer, the size
  it is passed is a request: the C library allocates the buffer and chooses its size.
  \<open>stdio_block w m n\<close> is the block size the library of the process gives a stream for
  the mode \<open>m\<close> and the requested size \<open>n\<close>.
\<close>

datatype bufmode = IOFBF | IOLBF | IONBF

record world =
  fdt :: "int \<Rightarrow> (nat \<times> bool) option"
  fd_limit :: nat
  next_obj :: nat
  errno :: int
  environ :: "string \<Rightarrow> string option"
  cur_dir :: string
  wrote :: "(nat \<times> string) list"
  calls :: "syscall list"
  open_errno :: "string \<Rightarrow> oflag \<Rightarrow> int"
  fork_ret :: "nat \<Rightarrow> int"
  forks :: nat
  errchan :: "rd_event list"
  waitpid_ret :: "nat \<Rightarrow> int"
  polls :: nat
  sysconf_open_max :: int
  chdir_errno :: "string \<Rightarrow> int"
  execvp_errno :: "string \<Rightarrow> int"
  strerror :: "int \<Rightarrow> string"
  stdio_block :: "bufmode \<Rightarrow> int \<Rightarrow> int"

definition called :: "syscall \<Rightarrow> world \<Rightarrow> world" where
  "called c w = w\<lparr>calls := calls w @ [c]\<rparr>"

text \<open>The lowest descriptor number that is not open, below the process's limit.\<close>

definition lowest_free :: "world \<Rightarrow> int option" where
  "lowest_free w = find (\<lambda>i. fdt w i = None) (map int [0..<fd_limit w])"

definition sys_close :: "int \<Rightarrow> world \<Rightarrow> int \<times> world" where
  "sys_close fd w0 =
     (let w = called (Sys_close fd) w0 in
      case fdt w fd of
        None \<Rightarrow> (-1, w\<lparr>errno := EBADF\<rparr>)
      | Some d \<Rightarrow> (0, w\<lparr>fdt := (fdt w)(fd := None)\<rparr>))"

definition sys_dup :: "int \<Rightarrow> world \<Rightarrow> int \<times> world" where
  "sys_dup fd w0 =
     (let w = called (Sys_dup fd) w0 in
      case fdt w fd of
        None \<Rightarrow> (-1, w\<lparr>errno := EBADF\<rparr>)
      | Some d \<Rightarrow>
          (case lowest_free w of
             None \<Rightarrow> (-1, w\<lparr>errno := EMFILE\<rparr>)
           | Some n \<Rightarrow> (n, w\<lparr>fdt := (fdt w)(n \<mapsto> (fst d, False))\<rparr>)))"

definition sys_dup2 :: "int \<Rightarrow> int \<Rightarrow> world \<Rightarrow> int \<times> world" where
  "sys_dup2 fd to_fd w0 =
     (let w = called (Sys_dup2 fd to_fd) w0 in
      case fdt w fd of
        None \<Rightarrow> (-1, w\<lparr>errno := EBADF\<rparr>)
      | Some d \<Rightarrow>
          if to_fd < 0 \<or> int (fd_limit w) \<le> to_fd then (-1, w\<lparr>errno := EBADF\<rparr>)
          else if fd = to_fd then (to_fd, w)
          else (to_fd, w\<lparr>fdt := (fdt w)(to_fd \<mapsto> (fst d, False))\<rparr>))"

text \<open>\<^verbatim>\<open>fcntl(fd, F_GETFD, 0)\<close> and \<^verbatim>\<open>fcntl(fd, F_SETFD, flags)\<close>; \<^verbatim>\<open>FD_CLOEXEC\<close> is bit 0.\<close>

definition FD_CLOEXEC :: int where "FD_CLOEXEC = 1"

definition sys_getfd :: "int \<Rightarrow> world \<Rightarrow> int \<times> world" where
  "sys_getfd fd w0 =
     (let w = called (Sys_getfd fd) w0 in
      case fdt w fd of
        None \<Rightarrow> (-1, w\<lparr>errno := EBADF\<rparr>)
      | Some d \<Rightarrow> (if snd d then FD_CLOEXEC else 0, w))"

definition sys_setfd :: "int \<Rightarrow> int \<Rightarrow> world \<Rightarrow> int \<times> world" where
  "sys_setfd fd flags w0 =
     (let w = called (Sys_setfd fd flags) w0 in
      case fdt w fd of
        None \<Rightarrow> (-1, w\<lparr>errno := EBADF\<rparr>)
      | Some d \<Rightarrow> (0, w\<lparr>fdt := (fdt w)(fd \<mapsto> (fst d, odd flags))\<rparr>))"

text \<open>
  \<^verbatim>\<open>pipe\<close> takes the two lowest free numbers: the read end first, then the write end.
  \<open>None\<close> is the return value \<open>-1\<close>.
\<close>

definition sys_pipe :: "world \<Rightarrow> (int \<times> int) option \<times> world" where
  "sys_pipe w0 =
     (let w = called Sys_pipe w0 in
      case lowest_free w of
        None \<Rightarrow> (None, w\<lparr>errno := EMFILE\<rparr>)
      | Some r \<Rightarrow>
          (let w1 = w\<lparr>fdt := (fdt w)(r \<mapsto> (next_obj w, False))\<rparr> in
           case lowest_free w1 of
             None \<Rightarrow> (None, w\<lparr>errno := EMFILE\<rparr>)
           | Some x \<Rightarrow>
               (Some (r, x),
                w1\<lparr>fdt := (fdt w1)(x \<mapsto> (Suc (next_obj w), False)),
                   next_obj := Suc (Suc (next_obj w))\<rparr>)))"

definition sys_open :: "string \<Rightarrow> oflag \<Rightarrow> world \<Rightarrow> int \<times> world" where
  "sys_open path fl w0 =
     (let w = called (Sys_open path fl) w0 in
      if open_errno w path fl \<noteq> 0 then (-1, w\<lparr>errno := open_errno w path fl\<rparr>)
      else
        case lowest_free w of
          None \<Rightarrow> (-1, w\<lparr>errno := EMFILE\<rparr>)
        | Some n \<Rightarrow>
            (n, w\<lparr>fdt := (fdt w)(n \<mapsto> (next_obj w, False)), next_obj := Suc (next_obj w)\<rparr>))"

text \<open>\<^verbatim>\<open>write\<close> on an open descriptor takes the whole buffer.\<close>

definition sys_write :: "int \<Rightarrow> string \<Rightarrow> world \<Rightarrow> int \<times> world" where
  "sys_write fd buf w0 =
     (let w = called (Sys_write fd buf) w0 in
      case fdt w fd of
        None \<Rightarrow> (-1, w\<lparr>errno := EBADF\<rparr>)
      | Some d \<Rightarrow> (int (length buf), w\<lparr>wrote := wrote w @ [(fst d, buf)]\<rparr>))"

text \<open>
  \<^verbatim>\<open>read(fd, buf, n)\<close> returns the count and the bytes it stored at the start of
  \<^verbatim>\<open>buf\<close>: at most \<open>n\<close> bytes of the next delivery, the rest of which stays in
  the channel for the next call.
\<close>

definition sys_read :: "int \<Rightarrow> nat \<Rightarrow> world \<Rightarrow> int \<times> string \<times> world" where
  "sys_read fd n w0 =
     (let w = called (Sys_read fd n) w0 in
      case fdt w fd of
        None \<Rightarrow> (-1, [], w\<lparr>errno := EBADF\<rparr>)
      | Some d \<Rightarrow>
          (case errchan w of
             [] \<Rightarrow> (0, [], w)
           | Failed e # rest \<Rightarrow> (-1, [], w\<lparr>errno := e, errchan := rest\<rparr>)
           | Bytes bs # rest \<Rightarrow>
               (int (length (take n bs)), take n bs,
                w\<lparr>errchan := (if drop n bs = [] then rest else Bytes (drop n bs) # rest)\<rparr>)))"

definition sys_fork :: "world \<Rightarrow> int \<times> world" where
  "sys_fork w0 =
     (let w = (called Sys_fork w0)\<lparr>forks := Suc (forks w0)\<rparr>;
          r = fork_ret w0 (forks w0)
      in (r, if r < 0 then w\<lparr>errno := EAGAIN\<rparr> else w))"

definition sys_waitpid :: "int \<Rightarrow> world \<Rightarrow> int \<times> world" where
  "sys_waitpid pid w0 =
     (let w = (called (Sys_waitpid pid) w0)\<lparr>polls := Suc (polls w0)\<rparr>;
          r = waitpid_ret w0 (polls w0)
      in (r, if r = -1 then w\<lparr>errno := ECHILD\<rparr> else w))"

definition sys_sysconf :: "world \<Rightarrow> int \<times> world" where
  "sys_sysconf w0 =
     (let w = called Sys_sysconf w0 in
      (sysconf_open_max w, if sysconf_open_max w = -1 then w\<lparr>errno := EINVAL\<rparr> else w))"

definition sys_chdir :: "string \<Rightarrow> world \<Rightarrow> int \<times> world" where
  "sys_chdir path w0 =
     (let w = called (Sys_chdir path) w0 in
      if chdir_errno w path \<noteq> 0 then (-1, w\<lparr>errno := chdir_errno w path\<rparr>)
      else (0, w\<lparr>cur_dir := path\<rparr>))"

text \<open>
  \<^verbatim>\<open>setenv(name, value, 1)\<close>: an empty name or one with \<^verbatim>\<open>=\<close> is refused; otherwise
  the variable is added or overwritten. No other variable changes.
\<close>

definition sys_setenv :: "string \<Rightarrow> string \<Rightarrow> world \<Rightarrow> int \<times> world" where
  "sys_setenv name val w0 =
     (let w = called (Sys_setenv name val) w0 in
      if name = [] \<or> CHR ''='' \<in> set name then (-1, w\<lparr>errno := EINVAL\<rparr>)
      else (0, w\<lparr>environ := (environ w)(name \<mapsto> val)\<rparr>))"

section \<open>Namespace util\<close>

definition set_clo_on_exec :: "int \<Rightarrow> bool \<Rightarrow> world \<Rightarrow> world" where
  "set_clo_on_exec fd set_flag w =
     (case sys_getfd fd w of (flags, w1) \<Rightarrow>
        snd (sys_setfd fd (if set_flag then flags OR FD_CLOEXEC else flags AND NOT FD_CLOEXEC) w1))"

definition pipe_cloexec :: "world \<Rightarrow> (exn \<times> world) + ((int \<times> int) \<times> world)" where
  "pipe_cloexec w =
     (case sys_pipe w of
        (None, w1) \<Rightarrow> Inl (OSError ''pipe failure'' (errno w1), w1)
      | (Some (r, x), w1) \<Rightarrow>
          Inr ((r, x), set_clo_on_exec x True (set_clo_on_exec r True w1)))"

text \<open>\<^verbatim>\<open>write_n\<close>: the loop advances the buffer by what was written.\<close>

function write_n_loop :: "int \<Rightarrow> string \<Rightarrow> nat \<Rightarrow> world \<Rightarrow> int \<times> world" where
  "write_n_loop fd buf nwritten w =
     (if nwritten < length buf then
        (case sys_write fd (drop nwritten buf) w of (written, w') \<Rightarrow>
           if written = -1 then (-1, w')
           else write_n_loop fd buf (nat (int nwritten + written)) w')
      else (int nwritten, w))"
  by pat_completeness auto
termination
  by (relation "measure (\<lambda>(fd, buf, n, w). length buf - n)")
     (auto simp: sys_write_def Let_def split: option.splits)

definition write_n :: "int \<Rightarrow> string \<Rightarrow> world \<Rightarrow> int \<times> world" where
  "write_n fd buf w = write_n_loop fd buf 0 w"

text \<open>
  \<^verbatim>\<open>read_atmost_n\<close>: every iteration calls \<^verbatim>\<open>read(fd, buf, read_upto)\<close> with the same
  \<^verbatim>\<open>buf\<close> and the same \<^verbatim>\<open>read_upto\<close>, so each delivery lands at the start of the
  buffer, over the one before; \<^verbatim>\<open>rbytes\<close> adds the counts up. The buffer is a list
  of \<^verbatim>\<open>read_upto\<close> bytes. The loop ends because the channel is finite.
\<close>

fun chan_size :: "rd_event list \<Rightarrow> nat" where
  "chan_size [] = 0"
| "chan_size (Bytes bs # r) = Suc (length bs + chan_size r)"
| "chan_size (Failed e # r) = Suc (chan_size r)"

function read_atmost_n_loop ::
  "int \<Rightarrow> nat \<Rightarrow> string \<Rightarrow> int \<Rightarrow> nat \<Rightarrow> world \<Rightarrow> int \<times> string \<times> world" where
  "read_atmost_n_loop fd read_upto buf rbytes eintr_cnter w =
     (case sys_read fd read_upto w of (read_bytes, dat, w') \<Rightarrow>
        if read_bytes = -1 then
          (if errno w' = EINTR then
             (if 50 \<le> eintr_cnter then (-1, buf, w')
              else read_atmost_n_loop fd read_upto buf rbytes (Suc eintr_cnter) w')
           else (-1, buf, w'))
        else if read_bytes = 0 then (rbytes, buf, w')
        else read_atmost_n_loop fd read_upto (dat @ drop (length dat) buf)
               (rbytes + read_bytes) eintr_cnter w')"
  by pat_completeness auto
termination
  apply (relation "measure (\<lambda>(fd, n, buf, r, c, w). chan_size (errchan w))")
    apply simp
   apply (auto simp: sys_read_def Let_def called_def EBADF_def EINTR_def
      split: option.splits list.splits rd_event.splits if_splits)
  done

definition read_atmost_n :: "int \<Rightarrow> string \<Rightarrow> nat \<Rightarrow> world \<Rightarrow> int \<times> string \<times> world" where
  "read_atmost_n fd buf read_upto w = read_atmost_n_loop fd read_upto buf 0 0 w"

text \<open>
  \<^verbatim>\<open>wait_for_child_exit\<close> polls \<^verbatim>\<open>waitpid(pid, &status, WNOHANG)\<close> for as long as it
  returns 0; \<open>None\<close> is the loop that never ends.
\<close>

partial_function (option) wait_for_child_exit :: "int \<Rightarrow> world \<Rightarrow> (int \<times> world) option" where
  "wait_for_child_exit pid w =
     (case sys_waitpid pid w of (ret, w') \<Rightarrow>
        if ret = -1 then Some (ret, w')
        else if ret = 0 then wait_for_child_exit pid w'
        else Some (pid, w'))"

declare wait_for_child_exit.simps [code]

section \<open>The arguments of Popen\<close>

text \<open>
  The structs \<^verbatim>\<open>input\<close>, \<^verbatim>\<open>output\<close> and \<^verbatim>\<open>error\<close> have the same two members,
  both \<open>-1\<close> by default; each has three constructors: from a descriptor, from a file
  name, and from \<^verbatim>\<open>PIPE\<close>. A constructor returns the struct, or throws, or fails its
  assertion (\<open>None\<close>; with \<^verbatim>\<open>NDEBUG\<close> the assertion is compiled out).
\<close>

datatype IOTYPE = STDIN | STDOUT | STDERR | PIPE

record channel =
  rd_ch :: int
  wr_ch :: int

type_synonym 'a thrown = "(exn \<times> world) + ('a \<times> world)"

definition input_fd :: "int \<Rightarrow> channel" where
  "input_fd fd = \<lparr>rd_ch = fd, wr_ch = -1\<rparr>"

definition input_file :: "string \<Rightarrow> world \<Rightarrow> channel thrown" where
  "input_file filename w =
     (case sys_open filename O_RDONLY w of (fd, w') \<Rightarrow>
        if fd = -1 then Inl (OSError ''File not found: '' (errno w'), w')
        else Inr (\<lparr>rd_ch = fd, wr_ch = -1\<rparr>, w'))"

definition input_pipe :: "bool \<Rightarrow> IOTYPE \<Rightarrow> world \<Rightarrow> channel thrown option" where
  "input_pipe ndebug typ w =
     (if \<not> ndebug \<and> typ \<noteq> PIPE then None
      else Some (case pipe_cloexec w of
                   Inl e \<Rightarrow> Inl e
                 | Inr ((r, x), w') \<Rightarrow> Inr (\<lparr>rd_ch = r, wr_ch = x\<rparr>, w')))"

definition output_fd :: "int \<Rightarrow> channel" where
  "output_fd fd = \<lparr>rd_ch = -1, wr_ch = fd\<rparr>"

definition output_file :: "string \<Rightarrow> world \<Rightarrow> channel thrown" where
  "output_file filename w =
     (case sys_open filename O_APPEND_CREAT_RDWR w of (fd, w') \<Rightarrow>
        if fd = -1 then Inl (OSError ''File not found: '' (errno w'), w')
        else Inr (\<lparr>rd_ch = -1, wr_ch = fd\<rparr>, w'))"

definition output_pipe :: "bool \<Rightarrow> IOTYPE \<Rightarrow> world \<Rightarrow> channel thrown option" where
  "output_pipe ndebug typ w =
     (if \<not> ndebug \<and> typ \<noteq> PIPE then None
      else Some (case pipe_cloexec w of
                   Inl e \<Rightarrow> Inl e
                 | Inr ((r, x), w') \<Rightarrow> Inr (\<lparr>rd_ch = r, wr_ch = x\<rparr>, w')))"

definition error_fd :: "int \<Rightarrow> channel" where
  "error_fd fd = \<lparr>rd_ch = -1, wr_ch = fd\<rparr>"

definition error_file :: "string \<Rightarrow> world \<Rightarrow> channel thrown" where
  "error_file filename w =
     (case sys_open filename O_APPEND_CREAT_RDWR w of (fd, w') \<Rightarrow>
        if fd = -1 then Inl (OSError ''File not found: '' (errno w'), w')
        else Inr (\<lparr>rd_ch = -1, wr_ch = fd\<rparr>, w'))"

definition error_pipe :: "bool \<Rightarrow> IOTYPE \<Rightarrow> world \<Rightarrow> channel thrown option" where
  "error_pipe ndebug typ w =
     (if \<not> ndebug \<and> typ \<noteq> PIPE then None
      else Some (case pipe_cloexec w of
                   Inl e \<Rightarrow> Inl e
                 | Inr ((r, x), w') \<Rightarrow> Inr (\<lparr>rd_ch = r, wr_ch = x\<rparr>, w')))"

datatype popen_arg =
    Executable string
  | Cwd string
  | Bufsize int
  | Environment "(string \<times> string) list"
  | Defer_spawn bool
  | Input channel
  | Output channel
  | Error channel
  | Close_fds bool

section \<open>Streams and Popen\<close>

text \<open>
  A \<^verbatim>\<open>FILE\<close> made by \<^verbatim>\<open>fdopen\<close>: its descriptor, its mode, its buffering mode and
  the block size of its buffer. A new stream is fully buffered, with the block size the
  library chooses when none is requested. A \<^verbatim>\<open>shared_ptr<FILE>\<close> is \<open>None\<close> when it
  holds no stream, which is also what a failed \<^verbatim>\<open>fdopen\<close> leaves.
\<close>

record FILE =
  fileno :: int
  fmode :: string
  buf_mode :: bufmode
  buf_size :: int

definition BUFSIZ :: int where "BUFSIZ = 8192"

definition fdopen :: "int \<Rightarrow> string \<Rightarrow> world \<Rightarrow> FILE option \<times> world" where
  "fdopen fd m w =
     (case fdt w fd of
        None \<Rightarrow> (None, w\<lparr>errno := EBADF\<rparr>)
      | Some d \<Rightarrow>
          (Some \<lparr>fileno = fd, fmode = m, buf_mode = IOFBF, buf_size = stdio_block w IOFBF 0\<rparr>,
           w))"

definition fclose :: "FILE \<Rightarrow> world \<Rightarrow> world" where
  "fclose f w = snd (sys_close (fileno f) w)"

text \<open>The \<^verbatim>\<open>size\<close> parameter of \<^verbatim>\<open>setvbuf\<close> is a \<^verbatim>\<open>size_t\<close>: an \<^verbatim>\<open>int\<close> converts modulo \<open>2^64\<close>.\<close>

definition size_t_of :: "int \<Rightarrow> int" where
  "size_t_of i = i mod 2 ^ 64"

text \<open>
  \<^verbatim>\<open>setvbuf(h, buf, mode, size)\<close>: with a buffer of the caller (\<open>Some\<close>) the block size
  is \<open>size\<close>; with the null pointer (\<open>None\<close>) it is the library's choice for the request.
\<close>

definition setvbuf :: "world \<Rightarrow> FILE \<Rightarrow> string option \<Rightarrow> bufmode \<Rightarrow> int \<Rightarrow> FILE" where
  "setvbuf w h buf m sz =
     h\<lparr>buf_mode := m,
       buf_size := (case buf of None \<Rightarrow> stdio_block w m sz | Some b \<Rightarrow> sz)\<rparr>"

record Streams =
  input :: "FILE option"
  "output" :: "FILE option"
  error :: "FILE option"
  bufsiz :: int
  write_to_child :: int
  read_from_parent :: int
  write_to_parent :: int
  read_from_child :: int
  err_write :: int
  err_read :: int

definition Streams_init :: Streams where
  "Streams_init =
     \<lparr>input = None, output = None, error = None, bufsiz = 0,
      write_to_child = -1, read_from_parent = -1, write_to_parent = -1,
      read_from_child = -1, err_write = -1, err_read = -1\<rparr>"

text \<open>
  The three close functions read the slots and call \<^verbatim>\<open>close\<close>; none of them assigns to
  a slot, so they return the world only.
\<close>

definition close_if :: "bool \<Rightarrow> int \<Rightarrow> world \<Rightarrow> world" where
  "close_if c fd w = (if c then snd (sys_close fd w) else w)"

definition cleanup_fds :: "Streams \<Rightarrow> world \<Rightarrow> world" where
  "cleanup_fds s w =
     (let w1 = close_if (write_to_child s \<noteq> -1 \<and> read_from_parent s \<noteq> -1) (write_to_child s) w;
          w2 = close_if (write_to_parent s \<noteq> -1 \<and> read_from_child s \<noteq> -1) (read_from_child s) w1
      in close_if (err_write s \<noteq> -1 \<and> err_read s \<noteq> -1) (err_read s) w2)"

definition close_parent_fds :: "Streams \<Rightarrow> world \<Rightarrow> world" where
  "close_parent_fds s w =
     (let w1 = close_if (write_to_child s \<noteq> -1) (write_to_child s) w;
          w2 = close_if (read_from_child s \<noteq> -1) (read_from_child s) w1
      in close_if (err_read s \<noteq> -1) (err_read s) w2)"

definition close_child_fds :: "Streams \<Rightarrow> world \<Rightarrow> world" where
  "close_child_fds s w =
     (let w1 = close_if (write_to_parent s \<noteq> -1) (write_to_parent s) w;
          w2 = close_if (read_from_parent s \<noteq> -1) (read_from_parent s) w1
      in close_if (err_write s \<noteq> -1) (err_write s) w2)"

text \<open>
  \<^verbatim>\<open>p.reset(fdopen(fd, mode), fclose)\<close>: the stream is opened first, then the pointer
  lets go of the stream it held, which \<^verbatim>\<open>fclose\<close> closes.
\<close>

definition reset :: "FILE option \<Rightarrow> int \<Rightarrow> string \<Rightarrow> world \<Rightarrow> FILE option \<times> world" where
  "reset old fd m w =
     (case fdopen fd m w of (h, w1) \<Rightarrow>
        (h, case old of None \<Rightarrow> w1 | Some f \<Rightarrow> fclose f w1))"

text \<open>The body of the loop over the handles: the \<^verbatim>\<open>switch\<close> on \<^verbatim>\<open>bufsiz_\<close>.\<close>

definition set_buffering :: "world \<Rightarrow> int \<Rightarrow> FILE \<Rightarrow> FILE" where
  "set_buffering w bsz h =
     (if bsz = 0 then setvbuf w h None IONBF (size_t_of BUFSIZ)
      else if bsz = 1 then setvbuf w h None IONBF (size_t_of BUFSIZ)
      else setvbuf w h None IOFBF (size_t_of bsz))"

definition setup_comm_channels :: "Streams \<Rightarrow> world \<Rightarrow> Streams \<times> world" where
  "setup_comm_channels s w =
     (let (s1, w1) =
            (if write_to_child s \<noteq> -1
             then (case reset (input s) (write_to_child s) ''wb'' w of
                     (h, w') \<Rightarrow> (s\<lparr>input := h\<rparr>, w'))
             else (s, w));
          (s2, w2) =
            (if read_from_child s1 \<noteq> -1
             then (case reset (output s1) (read_from_child s1) ''rb'' w1 of
                     (h, w') \<Rightarrow> (s1\<lparr>output := h\<rparr>, w'))
             else (s1, w1));
          (s3, w3) =
            (if err_read s2 \<noteq> -1
             then (case reset (error s2) (err_read s2) ''rb'' w2 of
                     (h, w') \<Rightarrow> (s2\<lparr>error := h\<rparr>, w'))
             else (s2, w2))
      in (s3\<lparr>input := map_option (set_buffering w3 (bufsiz s3)) (input s3),
             output := map_option (set_buffering w3 (bufsiz s3)) (output s3),
             error := map_option (set_buffering w3 (bufsiz s3)) (error s3)\<rparr>, w3))"

text \<open>
  An element of \<^verbatim>\<open>cargv_\<close> is a \<^verbatim>\<open>char*\<close>: the null pointer, or the address
  \<^verbatim>\<open>&vargs_[i][0]\<close> of the first character of the \<open>i\<close>-th token.
\<close>

datatype cptr = Null_ptr | Arg_ptr nat

record Popen =
  stream :: Streams
  defer_process_start :: bool
  close_fds :: bool
  exe_name :: string
  cwd :: string
  env :: "(string \<times> string) list"
  args :: string
  vargs :: "string list"
  cargv :: "cptr list"
  child_pid :: int

definition Popen_init :: Popen where
  "Popen_init =
     \<lparr>stream = Streams_init, defer_process_start = False, close_fds = False,
      exe_name = [], cwd = [], env = [], args = [], vargs = [], cargv = [],
      child_pid = -1\<rparr>"

fun set_option :: "popen_arg \<Rightarrow> Popen \<Rightarrow> Popen" where
  "set_option (Executable e) p = p\<lparr>exe_name := e\<rparr>"
| "set_option (Cwd d) p = p\<lparr>cwd := d\<rparr>"
| "set_option (Bufsize b) p = p\<lparr>stream := (stream p)\<lparr>bufsiz := b\<rparr>\<rparr>"
| "set_option (Environment m) p = p\<lparr>env := m\<rparr>"
| "set_option (Defer_spawn d) p = p\<lparr>defer_process_start := d\<rparr>"
| "set_option (Input inp) p =
     (let s = (stream p)\<lparr>read_from_parent := rd_ch inp\<rparr>
      in p\<lparr>stream := (if wr_ch inp \<noteq> -1 then s\<lparr>write_to_child := wr_ch inp\<rparr> else s)\<rparr>)"
| "set_option (Output out) p =
     (let s = (stream p)\<lparr>write_to_parent := wr_ch out\<rparr>
      in p\<lparr>stream := (if rd_ch out \<noteq> -1 then s\<lparr>read_from_child := rd_ch out\<rparr> else s)\<rparr>)"
| "set_option (Error err) p =
     (let s = (stream p)\<lparr>err_write := wr_ch err\<rparr>
      in p\<lparr>stream := (if rd_ch err \<noteq> -1 then s\<lparr>err_read := rd_ch err\<rparr> else s)\<rparr>)"
| "set_option (Close_fds c) p = p\<lparr>close_fds := c\<rparr>"

definition populate_c_argv :: "Popen \<Rightarrow> Popen" where
  "populate_c_argv p = p\<lparr>cargv := cargv p @ map Arg_ptr [0..<length (vargs p)]\<rparr>"

text \<open>\<^verbatim>\<open>init_args\<close>: one \<^verbatim>\<open>set_option\<close> per argument, in order, then \<^verbatim>\<open>populate_c_argv\<close>.\<close>

fun init_args :: "popen_arg list \<Rightarrow> Popen \<Rightarrow> Popen" where
  "init_args [] p = populate_c_argv p"
| "init_args (farg # rest) p = init_args rest (set_option farg p)"

text \<open>What a \<^verbatim>\<open>char*\<close> of \<^verbatim>\<open>cargv_\<close> points to.\<close>

definition deref :: "Popen \<Rightarrow> cptr \<Rightarrow> string option" where
  "deref p q =
     (case q of
        Null_ptr \<Rightarrow> None
      | Arg_ptr i \<Rightarrow> if i < length (vargs p) then Some (c_str (vargs p ! i)) else None)"

section \<open>The child: Child::execute_child\<close>

text \<open>
  What \<^verbatim>\<open>execvp\<close> hands to the new program: the file, the argument vector as it was
  passed (\<^verbatim>\<open>cargv_.data()\<close>), the environment of the process at that moment, the
  descriptors that are not close-on-exec, and the working directory. \<^verbatim>\<open>execvp\<close>
  returns only when it fails, and then it returns \<open>-1\<close>: \<open>Inl\<close> is that return.
\<close>

record image =
  img_file :: string
  img_argv :: "cptr list"
  img_env :: "string \<Rightarrow> string option"
  img_fdt :: "int \<Rightarrow> (nat \<times> bool) option"
  img_cwd :: string

definition sys_execvp :: "string \<Rightarrow> cptr list \<Rightarrow> world \<Rightarrow> world + image" where
  "sys_execvp file argv w0 =
     (let w = called (Sys_execvp file) w0 in
      if execvp_errno w file \<noteq> 0 then Inl (w\<lparr>errno := execvp_errno w file\<rparr>)
      else Inr \<lparr>img_file = file, img_argv = argv, img_env = environ w,
                img_fdt = (\<lambda>i. case fdt w i of
                                  None \<Rightarrow> None
                                | Some d \<Rightarrow> if snd d then None else Some d),
                img_cwd = cur_dir w\<rparr>)"

definition then_do :: "('e + 'a) \<Rightarrow> ('a \<Rightarrow> 'e + 'b) \<Rightarrow> 'e + 'b" where
  "then_do r f = (case r of Inl e \<Rightarrow> Inl e | Inr a \<Rightarrow> f a)"

text \<open>Lines 580--584: the two \<^verbatim>\<open>dup\<close> calls before the standard streams are made.\<close>

definition child_normalize :: "Streams \<Rightarrow> world \<Rightarrow> Streams \<times> world" where
  "child_normalize s w =
     (let (s1, w1) =
            (if write_to_parent s = 0
             then (case sys_dup (write_to_parent s) w of
                     (r, w') \<Rightarrow> (s\<lparr>write_to_parent := r\<rparr>, w'))
             else (s, w))
      in if err_write s1 = 0 \<or> err_write s1 = 1
         then (case sys_dup (err_write s1) w1 of
                 (r, w') \<Rightarrow> (s1\<lparr>err_write := r\<rparr>, w'))
         else (s1, w1))"

text \<open>The lambda \<^verbatim>\<open>_dup2_\<close> (lines 588--602).\<close>

definition lambda_dup2 :: "int \<Rightarrow> int \<Rightarrow> world \<Rightarrow> (exn \<times> world) + world" where
  "lambda_dup2 fd to_fd w =
     (if fd = to_fd then Inr (set_clo_on_exec fd False w)
      else if fd \<noteq> -1 then
        (case sys_dup2 fd to_fd w of (res, w') \<Rightarrow>
           if res = -1 then Inl (OSError ''dup2 failed'' (errno w'), w') else Inr w')
      else Inr w)"

text \<open>Lines 605--607, then lines 610--617.\<close>

definition child_std_streams :: "Streams \<Rightarrow> world \<Rightarrow> (exn \<times> world) + world" where
  "child_std_streams s w =
     then_do (lambda_dup2 (read_from_parent s) 0 w) (\<lambda>w1.
     then_do (lambda_dup2 (write_to_parent s) 1 w1) (\<lambda>w2.
     lambda_dup2 (err_write s) 2 w2))"

definition child_close_duped :: "Streams \<Rightarrow> world \<Rightarrow> world" where
  "child_close_duped s w =
     (let w1 = close_if (read_from_parent s \<noteq> -1 \<and> read_from_parent s > 2) (read_from_parent s) w;
          w2 = close_if (write_to_parent s \<noteq> -1 \<and> write_to_parent s > 2) (write_to_parent s) w1
      in close_if (err_write s \<noteq> -1 \<and> err_write s > 2) (err_write s) w2)"

text \<open>Lines 620--628: the sweep over the inherited descriptors.\<close>

definition child_close_inherited :: "bool \<Rightarrow> int \<Rightarrow> world \<Rightarrow> (exn \<times> world) + world" where
  "child_close_inherited close_all err_wr_pipe w =
     (if close_all then
        (case sys_sysconf w of (max_fd, w1) \<Rightarrow>
           if max_fd = -1 then Inl (OSError ''sysconf failed'' (errno w1), w1)
           else Inr (foldl (\<lambda>v i. if i = err_wr_pipe then v else snd (sys_close i v))
                      w1 [3..max_fd - 1]))
      else Inr w)"

text \<open>Lines 631--634.\<close>

definition child_chdir :: "string \<Rightarrow> world \<Rightarrow> (exn \<times> world) + world" where
  "child_chdir dir w =
     (if dir \<noteq> [] then
        (case sys_chdir (c_str dir) w of (sys_ret, w1) \<Rightarrow>
           if sys_ret = -1 then Inl (OSError ''chdir failed'' (errno w1), w1) else Inr w1)
      else Inr w)"

text \<open>
  Lines 637--646: one \<^verbatim>\<open>setenv(key, value, 1)\<close> per entry of the map, in the map's
  order, when the map is not empty; then \<^verbatim>\<open>execvp\<close> in both branches.
\<close>

fun child_setenv :: "(string \<times> string) list \<Rightarrow> world \<Rightarrow> world" where
  "child_setenv [] w = w"
| "child_setenv (kv # rest) w =
     child_setenv rest (snd (sys_setenv (c_str (fst kv)) (c_str (snd kv)) w))"

definition child_exec :: "Popen \<Rightarrow> world \<Rightarrow> (exn \<times> world) + image" where
  "child_exec p w =
     (let w1 = (if env p \<noteq> [] then child_setenv (env p) w else w) in
      case sys_execvp (c_str (exe_name p)) (cargv p) w1 of
        Inr img \<Rightarrow> Inr img
      | Inl w2 \<Rightarrow> Inl (OSError ''execve failed'' (errno w2), w2))"

definition execute_child_try :: "Popen \<Rightarrow> int \<Rightarrow> world \<Rightarrow> (exn \<times> world) + image" where
  "execute_child_try p err_wr_pipe w =
     (case child_normalize (stream p) w of (s, w1) \<Rightarrow>
        then_do (child_std_streams s w1) (\<lambda>w2.
        then_do (child_close_inherited (close_fds p) err_wr_pipe (child_close_duped s w2)) (\<lambda>w3.
        then_do (child_chdir (cwd p) w3) (\<lambda>w4.
        child_exec p w4))))"

text \<open>
  The child ends in one of three ways: the image is replaced; an \<^verbatim>\<open>OSError\<close> is caught,
  its message is written to the error channel and the process exits with
  \<^verbatim>\<open>EXIT_FAILURE\<close>; or an exception of another type escapes the handler.
\<close>

datatype child_end = Exec image | Exit int world | Uncaught exn

definition execute_child :: "Popen \<Rightarrow> int \<Rightarrow> world \<Rightarrow> child_end" where
  "execute_child p err_wr_pipe w =
     (case execute_child_try p err_wr_pipe w of
        Inr img \<Rightarrow> Exec img
      | Inl (e, w1) \<Rightarrow>
          (case e of
             OSError m c \<Rightarrow> Exit 1 (snd (write_n err_wr_pipe (what (strerror w1) e) w1))
           | CalledProcessError m \<Rightarrow> Uncaught e
           | Std_exception \<Rightarrow> Uncaught e))"

section \<open>The parent: Popen::execute_process and Popen::start_process\<close>

definition SP_MAX_ERR_BUF_SIZ :: nat where "SP_MAX_ERR_BUF_SIZ = 1024"

text \<open>
  A \<^verbatim>\<open>char\<close> array read as a C string: the bytes before the first NUL. Without a NUL
  in the array the read runs past its end (\<open>None\<close>).
\<close>

definition c_string_in :: "string \<Rightarrow> string option" where
  "c_string_in buf = (if CHR 0x00 \<in> set buf then Some (c_str buf) else None)"

text \<open>
  The \<^verbatim>\<open>try\<close> block of the parent (lines 509--522): it passes, or throws, or reads past
  \<^verbatim>\<open>err_buf\<close>, or never leaves the wait loop.
\<close>

datatype try_result = Passed world | Thrown exn world | Overrun | Never

definition execute_process_try :: "int \<Rightarrow> int \<Rightarrow> world \<Rightarrow> try_result" where
  "execute_process_try err_rd_pipe pid w =
     (case read_atmost_n err_rd_pipe (replicate SP_MAX_ERR_BUF_SIZ (CHR 0x00)) SP_MAX_ERR_BUF_SIZ w of
        (read_bytes, err_buf, w1) \<Rightarrow>
          let w2 = snd (sys_close err_rd_pipe w1) in
          if read_bytes = 0 \<and> c_string_in err_buf = None then Overrun
          else if read_bytes \<noteq> 0 \<or> c_string_in err_buf \<noteq> Some [] then
            (case wait_for_child_exit pid w2 of
               None \<Rightarrow> Never
             | Some (sys_ret, w3) \<Rightarrow>
                 if sys_ret = -1 then Thrown (OSError ''child exit'' (errno w3)) w3
                 else (case c_string_in err_buf of
                         None \<Rightarrow> Overrun
                       | Some m \<Rightarrow> Thrown (CalledProcessError m) w3))
          else Passed w2)"

text \<open>
  How a call ends. The handler of the parent (lines 523--526) catches by reference to
  \<^verbatim>\<open>std::exception\<close> and executes \<^verbatim>\<open>throw exp;\<close>, which throws a copy made from the
  static type of \<^verbatim>\<open>exp\<close>: an object of the base class. Both functions are declared
  \<^verbatim>\<open>throw (CalledProcessError, OSError)\<close>; an exception of another type that reaches
  the function's boundary calls \<^verbatim>\<open>std::unexpected()\<close>, which terminates the program.
\<close>

datatype fatal = Assertion_failed | Unexpected exn

datatype outcome =
    Returns Popen world
  | Throws exn Popen world
  | Aborts fatal Popen world
  | Undefined
  | Hangs
  | Child child_end

definition exception_spec :: "outcome \<Rightarrow> outcome" where
  "exception_spec out =
     (case out of
        Throws e p w \<Rightarrow>
          (case e of
             Std_exception \<Rightarrow> Aborts (Unexpected e) p w
           | OSError m c \<Rightarrow> out
           | CalledProcessError m \<Rightarrow> out)
      | Returns p w \<Rightarrow> out
      | Aborts f p w \<Rightarrow> out
      | Undefined \<Rightarrow> out
      | Hangs \<Rightarrow> out
      | Child c \<Rightarrow> out)"

definition execute_process_body :: "Popen \<Rightarrow> world \<Rightarrow> outcome" where
  "execute_process_body p w =
     (case pipe_cloexec w of
        Inl (e, w1) \<Rightarrow> Throws e p w1
      | Inr ((err_rd_pipe, err_wr_pipe), w1) \<Rightarrow>
          if exe_name p = [] \<and> vargs p = [] then Undefined
          else
            let p1 = (if exe_name p = [] then p\<lparr>exe_name := hd (vargs p)\<rparr> else p) in
            case sys_fork w1 of (pid, w2) \<Rightarrow>
              let p2 = p1\<lparr>child_pid := pid\<rparr> in
              if pid < 0 then
                (let w3 = snd (sys_close err_rd_pipe w2);
                     w4 = snd (sys_close err_wr_pipe w3)
                 in Throws (OSError ''fork failed'' (errno w4)) p2 w4)
              else if pid = 0 then
                (let w3 = close_parent_fds (stream p2) w2;
                     w4 = snd (sys_close err_rd_pipe w3)
                 in Child (execute_child p2 err_wr_pipe w4))
              else
                (let w3 = snd (sys_close err_wr_pipe w2);
                     w4 = close_child_fds (stream p2) w3
                 in case execute_process_try err_rd_pipe pid w4 of
                      Thrown e w5 \<Rightarrow> Throws Std_exception p2 (cleanup_fds (stream p2) w5)
                    | Overrun \<Rightarrow> Undefined
                    | Never \<Rightarrow> Hangs
                    | Passed w5 \<Rightarrow>
                        (case setup_comm_channels (stream p2) w5 of
                           (s, w6) \<Rightarrow> Returns (p2\<lparr>stream := s\<rparr>) w6)))"

definition execute_process :: "Popen \<Rightarrow> world \<Rightarrow> outcome" where
  "execute_process p w = exception_spec (execute_process_body p w)"

text \<open>
  \<^verbatim>\<open>start_process\<close>: \<^verbatim>\<open>assert (0); return;\<close> when the start was not deferred (the
  \<^verbatim>\<open>return\<close> is what a build with \<^verbatim>\<open>NDEBUG\<close> executes), \<^verbatim>\<open>execute_process()\<close>
  otherwise.
\<close>

definition start_process :: "bool \<Rightarrow> Popen \<Rightarrow> world \<Rightarrow> outcome" where
  "start_process ndebug p w =
     exception_spec
       (if \<not> defer_process_start p then (if ndebug then Returns p w else Aborts Assertion_failed p w)
        else execute_process p w)"

text \<open>The constructor from a list of tokens (lines 391--398).\<close>

definition Popen_ctor :: "string list \<Rightarrow> popen_arg list \<Rightarrow> world \<Rightarrow> outcome" where
  "Popen_ctor cmd_args as w =
     (let p = init_args as (Popen_init\<lparr>vargs := cmd_args\<rparr>) in
      if \<not> defer_process_start p then execute_process p w else Returns p w)"

section \<open>Reading an outcome; example processes\<close>

text \<open>The state a call leaves behind, when it leaves one.\<close>

definition outcome_popen :: "outcome \<Rightarrow> Popen option" where
  "outcome_popen out =
     (case out of
        Returns p w \<Rightarrow> Some p
      | Throws e p w \<Rightarrow> Some p
      | Aborts f p w \<Rightarrow> Some p
      | Undefined \<Rightarrow> None
      | Hangs \<Rightarrow> None
      | Child c \<Rightarrow> None)"

definition outcome_world :: "outcome \<Rightarrow> world option" where
  "outcome_world out =
     (case out of
        Returns p w \<Rightarrow> Some w
      | Throws e p w \<Rightarrow> Some w
      | Aborts f p w \<Rightarrow> Some w
      | Undefined \<Rightarrow> None
      | Hangs \<Rightarrow> None
      | Child c \<Rightarrow> (case c of Exec img \<Rightarrow> None | Exit n w \<Rightarrow> Some w | Uncaught e \<Rightarrow> None))"

text \<open>
  A process with descriptors 0, 1 and 2 open on a terminal and \<^verbatim>\<open>HOME\<close> in its
  environment. Every \<^verbatim>\<open>fork\<close> in it returns 0: it is the copy in which the child runs.
  \<open>parent_world\<close> is the same process seen from the parent, where \<^verbatim>\<open>fork\<close> returns
  42 and then 43. Its C library gives a stream without a buffer of the caller blocks of
  4096 bytes, whatever size is requested, and of one byte when it is unbuffered.
\<close>

definition tty_world :: world where
  "tty_world =
     \<lparr>fdt = (\<lambda>i. if 0 \<le> i \<and> i \<le> 2 then Some (0, False) else None),
      fd_limit = 8, next_obj = 1, errno = 0,
      environ = [''HOME'' \<mapsto> ''/root''], cur_dir = ''/'',
      wrote = [], calls = [],
      open_errno = (\<lambda>path fl. 0), fork_ret = (\<lambda>i. 0), forks = 0,
      errchan = [], waitpid_ret = (\<lambda>i. 42), polls = 0, sysconf_open_max = 8,
      chdir_errno = (\<lambda>path. 0), execvp_errno = (\<lambda>file. 0),
      strerror = (\<lambda>c. ''No such file or directory''),
      stdio_block = (\<lambda>m n. if m = IONBF then 1 else 4096)\<rparr>"

definition parent_world :: world where
  "parent_world = tty_world\<lparr>fork_ret := (\<lambda>i. if i = 0 then 42 else 43)\<rparr>"

text \<open>The same process when \<^verbatim>\<open>fork\<close> fails.\<close>

definition nofork_world :: world where
  "nofork_world = tty_world\<lparr>fork_ret := (\<lambda>i. -1)\<rparr>"

text \<open>The same process after \<^verbatim>\<open>output{PIPE}\<close> was constructed: the pipe is 3 and 4.\<close>

definition piped_world :: world where
  "piped_world =
     parent_world\<lparr>fdt := (\<lambda>i. if 0 \<le> i \<and> i \<le> 2 then Some (0, False)
                             else if i = 3 then Some (1, True)
                             else if i = 4 then Some (2, True) else None),
                  next_obj := 3\<rparr>"

definition piped_popen :: Popen where
  "piped_popen =
     init_args [Bufsize 4096, Output \<lparr>rd_ch = 3, wr_ch = 4\<rparr>] (Popen_init\<lparr>vargs := [''ls'']\<rparr>)"

text \<open>The same launcher with the buffering selector 2.\<close>

definition small_buf_popen :: Popen where
  "small_buf_popen =
     init_args [Bufsize 2, Output \<lparr>rd_ch = 3, wr_ch = 4\<rparr>] (Popen_init\<lparr>vargs := [''ls'']\<rparr>)"

text \<open>
  The three roles, the two slots of a role, and the members of an argument struct that
  go to them: \<^verbatim>\<open>input\<close> gives its read end to the child, \<^verbatim>\<open>output\<close> and \<^verbatim>\<open>error\<close>
  give their write end.
\<close>

datatype role = Role_stdin | Role_stdout | Role_stderr

definition parent_slot :: "role \<Rightarrow> Streams \<Rightarrow> int" where
  "parent_slot r s =
     (case r of Role_stdin \<Rightarrow> write_to_child s
              | Role_stdout \<Rightarrow> read_from_child s
              | Role_stderr \<Rightarrow> err_read s)"

definition child_slot :: "role \<Rightarrow> Streams \<Rightarrow> int" where
  "child_slot r s =
     (case r of Role_stdin \<Rightarrow> read_from_parent s
              | Role_stdout \<Rightarrow> write_to_parent s
              | Role_stderr \<Rightarrow> err_write s)"

definition apply_spec :: "role \<Rightarrow> channel \<Rightarrow> Popen \<Rightarrow> Popen" where
  "apply_spec r ch p =
     (case r of Role_stdin \<Rightarrow> set_option (Input ch) p
              | Role_stdout \<Rightarrow> set_option (Output ch) p
              | Role_stderr \<Rightarrow> set_option (Error ch) p)"

definition spec_fd :: "role \<Rightarrow> int \<Rightarrow> channel" where
  "spec_fd r fd =
     (case r of Role_stdin \<Rightarrow> input_fd fd
              | Role_stdout \<Rightarrow> output_fd fd
              | Role_stderr \<Rightarrow> error_fd fd)"

definition spec_file :: "role \<Rightarrow> string \<Rightarrow> world \<Rightarrow> channel thrown" where
  "spec_file r f w =
     (case r of Role_stdin \<Rightarrow> input_file f w
              | Role_stdout \<Rightarrow> output_file f w
              | Role_stderr \<Rightarrow> error_file f w)"

definition spec_pipe :: "role \<Rightarrow> bool \<Rightarrow> IOTYPE \<Rightarrow> world \<Rightarrow> channel thrown option" where
  "spec_pipe r ndebug typ w =
     (case r of Role_stdin \<Rightarrow> input_pipe ndebug typ w
              | Role_stdout \<Rightarrow> output_pipe ndebug typ w
              | Role_stderr \<Rightarrow> error_pipe ndebug typ w)"

text \<open>The claimed invariant of a role: both slots unset, or both set.\<close>

definition both_or_neither :: "role \<Rightarrow> Streams \<Rightarrow> bool" where
  "both_or_neither r s \<longleftrightarrow> (parent_slot r s = -1) = (child_slot r s = -1)"

text \<open>
  A caller that constructs with \<^verbatim>\<open>defer_spawn{true}\<close> and calls \<^verbatim>\<open>start_process()\<close>
  twice: the second call runs when the first one returned.
\<close>

definition deferred_popen :: Popen where
  "deferred_popen = init_args [Defer_spawn True] (Popen_init\<lparr>vargs := [''ls'']\<rparr>)"

definition start_twice :: "bool \<Rightarrow> Popen \<Rightarrow> world \<Rightarrow> outcome" where
  "start_twice ndebug p w =
     (case start_process ndebug p w of
        Returns p1 w1 \<Rightarrow> start_process ndebug p1 w1
      | Throws e p1 w1 \<Rightarrow> Throws e p1 w1
      | Aborts f p1 w1 \<Rightarrow> Aborts f p1 w1
      | Undefined \<Rightarrow> Undefined
      | Hangs \<Rightarrow> Hangs
      | Child c \<Rightarrow> Child c)"

definition returned :: "outcome \<Rightarrow> bool" where
  "returned out =
     (case out of
        Returns p w \<Rightarrow> True
      | Throws e p w \<Rightarrow> False
      | Aborts f p w \<Rightarrow> False
      | Undefined \<Rightarrow> False
      | Hangs \<Rightarrow> False
      | Child c \<Rightarrow> False)"

text \<open>The image the child of a launch hands to the new program, when it gets there.\<close>

definition outcome_image :: "outcome \<Rightarrow> image option" where
  "outcome_image out =
     (case out of
        Returns p w \<Rightarrow> None
      | Throws e p w \<Rightarrow> None
      | Aborts f p w \<Rightarrow> None
      | Undefined \<Rightarrow> None
      | Hangs \<Rightarrow> None
      | Child c \<Rightarrow> (case c of Exec img \<Rightarrow> Some img | Exit n w \<Rightarrow> None | Uncaught e \<Rightarrow> None))"

text \<open>A launcher with the environment mapping \<^verbatim>\<open>{"X": "1"}\<close>.\<close>

definition env_popen :: Popen where
  "env_popen = init_args [Environment [(''X'', ''1'')]] (Popen_init\<lparr>vargs := [''printenv'']\<rparr>)"

text \<open>
  The calls made between two states, and their reading as operations on descriptors:
  a \<^verbatim>\<open>close\<close>, a \<^verbatim>\<open>dup\<close>, a \<^verbatim>\<open>dup2\<close>, and an \<^verbatim>\<open>F_SETFD\<close> that sets or clears the
  close-on-exec bit.
\<close>

datatype fd_op =
    Closed int
  | Reduplicated int
  | Duplicated int int
  | Cloexec_set int
  | Cloexec_cleared int

fun fd_op_of :: "syscall \<Rightarrow> fd_op list" where
  "fd_op_of (Sys_close fd) = [Closed fd]"
| "fd_op_of (Sys_dup fd) = [Reduplicated fd]"
| "fd_op_of (Sys_dup2 fd to_fd) = [Duplicated fd to_fd]"
| "fd_op_of (Sys_getfd fd) = []"
| "fd_op_of (Sys_setfd fd flags) = [if odd flags then Cloexec_set fd else Cloexec_cleared fd]"
| "fd_op_of Sys_pipe = []"
| "fd_op_of (Sys_open path fl) = []"
| "fd_op_of (Sys_read fd n) = []"
| "fd_op_of (Sys_write fd buf) = []"
| "fd_op_of Sys_fork = []"
| "fd_op_of (Sys_waitpid pid) = []"
| "fd_op_of Sys_sysconf = []"
| "fd_op_of (Sys_chdir path) = []"
| "fd_op_of (Sys_setenv name val) = []"
| "fd_op_of (Sys_execvp file) = []"

definition fd_ops :: "syscall list \<Rightarrow> fd_op list" where
  "fd_ops cs = concat (map fd_op_of cs)"

definition new_calls :: "world \<Rightarrow> world \<Rightarrow> syscall list" where
  "new_calls w w' = drop (length (calls w)) (calls w')"

definition extends :: "world \<Rightarrow> world \<Rightarrow> fd_op list \<Rightarrow> bool" where
  "extends w w' ops \<longleftrightarrow> (\<exists>cs. calls w' = calls w @ cs \<and> fd_ops cs = ops)"








text \<open>The six descriptor slots of the stream set.\<close>

definition slots :: "Streams \<Rightarrow> int list" where
  "slots s =
     [write_to_child s, read_from_parent s, write_to_parent s, read_from_child s,
      err_write s, err_read s]"



definition deferred_piped_popen :: Popen where
  "deferred_piped_popen =
     init_args [Defer_spawn True, Output \<lparr>rd_ch = 3, wr_ch = 4\<rparr>]
       (Popen_init\<lparr>vargs := [''ls'']\<rparr>)"





text \<open>
  A launch whose child fails: \<^verbatim>\<open>fork\<close> returns 42, \<^verbatim>\<open>waitpid\<close> returns 42, and the
  error channel delivers the child's message, in one read (\<open>failed_child_world\<close>) or in
  two (\<open>split_child_world\<close>). \<open>reading_world\<close> is the parent at the \<^verbatim>\<open>try\<close> block of the
  second case, with the read end of the error channel at descriptor 3.
\<close>

definition nosuch_popen :: Popen where
  "nosuch_popen = init_args [] (Popen_init\<lparr>vargs := [''nosuch'']\<rparr>)"

definition failed_child_world :: world where
  "failed_child_world =
     parent_world\<lparr>errchan := [Bytes ''execve failed : No such file or directory'']\<rparr>"

definition split_child_world :: world where
  "split_child_world =
     parent_world\<lparr>errchan := [Bytes ''execve failed : No such '', Bytes ''file or directory'']\<rparr>"

definition reading_world :: world where
  "reading_world =
     split_child_world\<lparr>fdt := (\<lambda>i. if 0 \<le> i \<and> i \<le> 2 then Some (0, False)
                                   else if i = 3 then Some (1, True) else None),
                       next_obj := 3\<rparr>"

definition thrown_exn :: "try_result \<Rightarrow> exn option" where
  "thrown_exn r =
     (case r of Passed w \<Rightarrow> None | Thrown e w \<Rightarrow> Some e | Overrun \<Rightarrow> None | Never \<Rightarrow> None)"

definition outcome_fatal :: "outcome \<Rightarrow> fatal option" where
  "outcome_fatal out =
     (case out of
        Returns p w \<Rightarrow> None
      | Throws e p w \<Rightarrow> None
      | Aborts f p w \<Rightarrow> Some f
      | Undefined \<Rightarrow> None
      | Hangs \<Rightarrow> None
      | Child c \<Rightarrow> None)"

definition outcome_exn :: "outcome \<Rightarrow> exn option" where
  "outcome_exn out =
     (case out of
        Returns p w \<Rightarrow> None
      | Throws e p w \<Rightarrow> Some e
      | Aborts f p w \<Rightarrow> None
      | Undefined \<Rightarrow> None
      | Hangs \<Rightarrow> None
      | Child c \<Rightarrow> None)"

section \<open>Evaluation and general lemmas\<close>

lemmas sys_defs = called_def lowest_free_def sys_close_def sys_dup_def sys_dup2_def
  sys_getfd_def sys_setfd_def sys_pipe_def sys_open_def sys_write_def sys_read_def
  sys_fork_def sys_waitpid_def sys_sysconf_def sys_chdir_def sys_setenv_def sys_execvp_def
  FD_CLOEXEC_def EINTR_def EBADF_def ECHILD_def EINVAL_def EMFILE_def EAGAIN_def

lemmas code_defs = set_clo_on_exec_def pipe_cloexec_def write_n_def read_atmost_n_def
  fdopen_def fclose_def size_t_of_def setvbuf_def BUFSIZ_def Streams_init_def Popen_init_def
  close_if_def cleanup_fds_def close_parent_fds_def close_child_fds_def reset_def
  set_buffering_def setup_comm_channels_def populate_c_argv_def then_do_def
  child_normalize_def lambda_dup2_def child_std_streams_def child_close_duped_def
  child_close_inherited_def child_chdir_def child_exec_def execute_child_try_def
  execute_child_def SP_MAX_ERR_BUF_SIZ_def c_string_in_def c_str_def execute_process_try_def
  exception_spec_def execute_process_body_def execute_process_def start_process_def
  Popen_ctor_def what_def outcome_popen_def outcome_world_def

lemmas example_defs = tty_world_def parent_world_def piped_world_def piped_popen_def

lemma then_do_Inr: "then_do r f = Inr b \<longleftrightarrow> (\<exists>a. r = Inr a \<and> f a = Inr b)"
  by (cases r) (simp_all add: then_do_def)

lemma exception_spec_Child: "exception_spec out = Child c \<longleftrightarrow> out = Child c"
  by (cases out) (auto simp: exception_spec_def split: exn.splits)

lemma exception_spec_Returns: "exception_spec out = Returns p w \<longleftrightarrow> out = Returns p w"
  by (cases out) (auto simp: exception_spec_def split: exn.splits)

lemma wait_once:
  "waitpid_ret w (polls w) \<noteq> 0 \<Longrightarrow> waitpid_ret w (polls w) \<noteq> -1 \<Longrightarrow>
   wait_for_child_exit pid w = Some (pid, snd (sys_waitpid pid w))"
  by (subst wait_for_child_exit.simps) (simp add: sys_waitpid_def Let_def)

section \<open>Descriptors of a new pipe\<close>

lemma lowest_free_Some:
  "lowest_free w = Some n \<Longrightarrow> fdt w n = None \<and> 0 \<le> n \<and> n < int (fd_limit w)"
  by (auto simp: lowest_free_def find_Some_iff)

lemma set_clo_on_exec_fdt:
  "fdt (set_clo_on_exec fd b w) i = (if i = fd then map_option (\<lambda>d. (fst d, odd (if b then (if snd d then FD_CLOEXEC else 0) OR FD_CLOEXEC else (if snd d then FD_CLOEXEC else 0) AND NOT FD_CLOEXEC))) (fdt w fd) else fdt w i)"
  by (auto simp: set_clo_on_exec_def sys_getfd_def sys_setfd_def called_def Let_def split: option.splits)

lemma set_clo_on_exec_rest:
  "fork_ret (set_clo_on_exec fd b w) = fork_ret w"
  "forks (set_clo_on_exec fd b w) = forks w"
  "environ (set_clo_on_exec fd b w) = environ w"
  "fd_limit (set_clo_on_exec fd b w) = fd_limit w"
  by (auto simp: set_clo_on_exec_def sys_getfd_def sys_setfd_def called_def Let_def split: option.splits)

lemma pipe_cloexec_fds:
  assumes "pipe_cloexec w = Inr ((rd, wr), w1)"
  shows "fdt w rd = None" "fdt w wr = None" "0 \<le> rd" "0 \<le> wr"
    "\<And>i. (fdt w1 i = None) = (i \<noteq> rd \<and> i \<noteq> wr \<and> fdt w i = None)"
    "\<And>i. i \<noteq> rd \<Longrightarrow> i \<noteq> wr \<Longrightarrow> fdt w1 i = fdt w i"
    "fork_ret w1 = fork_ret w" "forks w1 = forks w" "environ w1 = environ w"
    "rd \<noteq> wr"
  using assms
  by (auto simp: pipe_cloexec_def sys_pipe_def Let_def called_def set_clo_on_exec_fdt set_clo_on_exec_rest
      split: option.splits prod.splits if_splits dest!: lowest_free_Some)


lemma close_pair_restores:
  assumes "fdt w rd = None" "fdt w wr = None"
    and "\<And>i. (fdt w1 i = None) = (i \<noteq> rd \<and> i \<noteq> wr \<and> fdt w i = None)"
    and "\<And>i. i \<noteq> rd \<Longrightarrow> i \<noteq> wr \<Longrightarrow> fdt w1 i = fdt w i"
    and "fdt w2 = fdt w1"
  shows "fdt (snd (sys_close wr (snd (sys_close rd w2)))) = fdt w"
proof
  fix i
  show "fdt (snd (sys_close wr (snd (sys_close rd w2)))) i = fdt w i"
    using assms by (auto simp: sys_close_def called_def Let_def split: option.splits)
qed

lemma sys_close_calls:
  "calls (snd (sys_close fd w)) = calls w @ [Sys_close fd]"
  "errno (snd (sys_close fd w)) = (if fdt w fd = None then EBADF else errno w)"
  by (auto simp: sys_close_def called_def Let_def split: option.splits)

section \<open>The argument vector\<close>

lemma set_option_vargs: "vargs (set_option a p) = vargs p"
  by (cases a) (simp_all add: Let_def)

lemma set_option_cargv: "cargv (set_option a p) = cargv p"
  by (cases a) (simp_all add: Let_def)

lemma init_args_vargs: "vargs (init_args as p) = vargs p"
  by (induction as arbitrary: p) (simp_all add: populate_c_argv_def set_option_vargs)

lemma init_args_cargv:
  "cargv (init_args as p) = cargv p @ map Arg_ptr [0..<length (vargs p)]"
  by (induction as arbitrary: p)
     (simp_all add: populate_c_argv_def set_option_vargs set_option_cargv)

lemma child_exec_argv: "child_exec p w = Inr img \<Longrightarrow> img_argv img = cargv p"
  by (auto simp: child_exec_def sys_execvp_def Let_def split: sum.splits if_splits)

lemma execute_child_argv: "execute_child p e w = Exec img \<Longrightarrow> img_argv img = cargv p"
  by (auto simp: execute_child_def execute_child_try_def then_do_Inr
      split: sum.splits prod.splits exn.splits dest: child_exec_argv)

lemma execute_process_argv:
  "execute_process p w = Child (Exec img) \<Longrightarrow> img_argv img = cargv p"
  unfolding execute_process_def exception_spec_Child execute_process_body_def
  by (auto simp: Let_def split: sum.splits prod.splits if_splits try_result.splits
      dest!: execute_child_argv)

lemma execute_process_keeps_argv:
  "execute_process p w = Returns p' w' \<Longrightarrow> cargv p' = cargv p \<and> vargs p' = vargs p"
  unfolding execute_process_def exception_spec_Returns execute_process_body_def
  by (auto simp: Let_def split: sum.splits prod.splits if_splits try_result.splits)

lemma Popen_ctor_launch:
  "Popen_ctor toks as w =
     (if defer_process_start (init_args as (Popen_init\<lparr>vargs := toks\<rparr>))
      then Returns (init_args as (Popen_init\<lparr>vargs := toks\<rparr>)) w
      else execute_process (init_args as (Popen_init\<lparr>vargs := toks\<rparr>)) w)"
  by (simp add: Popen_ctor_def Let_def)

text \<open>
  C10. For a launcher built by the constructor from the tokens \<open>toks\<close> and any
  arguments, whenever the child of a launch reaches the image replacement, the vector
  handed to \<^verbatim>\<open>execvp\<close> is exactly one pointer per token, in the order of the tokens, each
  pointing to its token, and no element of it is the null pointer: no terminating null
  entry was appended.
\<close>

theorem argv_has_no_terminator:
  assumes "execute_process (init_args as (Popen_init\<lparr>vargs := toks\<rparr>)) w = Child (Exec img)"
  shows "img_argv img = map Arg_ptr [0..<length toks]
       \<and> length (img_argv img) = length toks
       \<and> map (deref (init_args as (Popen_init\<lparr>vargs := toks\<rparr>))) (img_argv img)
           = map (\<lambda>t. Some (c_str t)) toks
       \<and> Null_ptr \<notin> set (img_argv img)"
proof -
  let ?p = "init_args as (Popen_init\<lparr>vargs := toks\<rparr>)"
  have a: "img_argv img = cargv ?p" using execute_process_argv [OF assms] .
  have b: "cargv ?p = map Arg_ptr [0..<length toks]"
    by (simp add: init_args_cargv Popen_init_def)
  have v: "vargs ?p = toks" by (simp add: init_args_vargs)
  have d: "map (deref ?p) (map Arg_ptr [0..<length toks]) = map (\<lambda>t. Some (c_str t)) toks"
    by (rule nth_equalityI) (simp_all add: deref_def v)
  show ?thesis using a b d by auto
qed

theorem argv_has_no_terminator_witness:
  "\<exists>img. execute_process (init_args [] (Popen_init\<lparr>vargs := [''ls'', ''-l'']\<rparr>)) tty_world
            = Child (Exec img)
       \<and> img_argv img = [Arg_ptr 0, Arg_ptr 1]
       \<and> Null_ptr \<notin> set (img_argv img)"
proof -
  have "\<exists>img. execute_process (init_args [] (Popen_init\<lparr>vargs := [''ls'', ''-l'']\<rparr>)) tty_world
          = Child (Exec img)"
    by (simp add: example_defs code_defs sys_defs Let_def upt_rec)
  then obtain img
    where h: "execute_process (init_args [] (Popen_init\<lparr>vargs := [''ls'', ''-l'']\<rparr>)) tty_world
                = Child (Exec img)"
    by blast
  from argv_has_no_terminator [OF h] have "img_argv img = [Arg_ptr 0, Arg_ptr 1]"
    and "Null_ptr \<notin> set (img_argv img)" by (simp_all add: upt_rec)
  with h show ?thesis by blast
qed

section \<open>Buffering\<close>

lemma set_buffering_cases:
  "(b = 0 \<or> b = 1 \<longrightarrow>
      buf_mode (set_buffering w b h) = IONBF
      \<and> buf_size (set_buffering w b h) = stdio_block w IONBF BUFSIZ) \<and>
   (1 < b \<and> b < 2 ^ 31 \<longrightarrow>
      buf_mode (set_buffering w b h) = IOFBF
      \<and> buf_size (set_buffering w b h) = stdio_block w IOFBF b)"
  by (simp add: set_buffering_def setvbuf_def size_t_of_def BUFSIZ_def)

lemma Some_map_option: "Some h = map_option f x \<Longrightarrow> \<exists>g. h = f g"
  by (cases x) auto

lemma setup_comm_channels_bufsiz:
  "setup_comm_channels s w = (s', w') \<Longrightarrow>
   Some h \<in> {input s', output s', error s'} \<Longrightarrow>
   \<exists>g. h = set_buffering w' (bufsiz s) g"
  by (auto simp: setup_comm_channels_def Let_def split: prod.splits if_splits
      dest!: Some_map_option)

lemma execute_process_Returns:
  "execute_process p w = Returns p' w' \<Longrightarrow>
   \<exists>v. setup_comm_channels (stream p) v = (stream p', w')"
  unfolding execute_process_def exception_spec_Returns execute_process_body_def
  by (auto simp: Let_def split: sum.splits prod.splits if_splits try_result.splits)

text \<open>
  C6, as amended. When a launch returns, every stream handle of the launcher is
  unbuffered if the buffering selector is 0 or 1, and fully buffered if the selector is
  another positive value \<open>N\<close> (of the \<^verbatim>\<open>int\<close> range). In both cases \<^verbatim>\<open>setvbuf\<close> was
  given no buffer, so the block size of the handle is the one the C library chooses for
  the request: for the selector \<open>N\<close> the request is \<open>N\<close>, and the block size is \<open>N\<close>
  only with a library that honours the request.
\<close>

theorem buffering_selector:
  assumes "execute_process p w = Returns p' w'"
    and "Some h \<in> {input (stream p'), output (stream p'), error (stream p')}"
  shows "(bufsiz (stream p) = 0 \<or> bufsiz (stream p) = 1 \<longrightarrow>
            buf_mode h = IONBF \<and> buf_size h = stdio_block w' IONBF BUFSIZ) \<and>
         (1 < bufsiz (stream p) \<and> bufsiz (stream p) < 2 ^ 31 \<longrightarrow>
            buf_mode h = IOFBF \<and> buf_size h = stdio_block w' IOFBF (bufsiz (stream p))) \<and>
         (1 < bufsiz (stream p) \<and> bufsiz (stream p) < 2 ^ 31
            \<and> stdio_block w' IOFBF (bufsiz (stream p)) = bufsiz (stream p) \<longrightarrow>
            buf_size h = bufsiz (stream p))"
proof -
  from execute_process_Returns [OF assms(1)] obtain v
    where "setup_comm_channels (stream p) v = (stream p', w')" by blast
  from setup_comm_channels_bufsiz [OF this assms(2)] obtain g
    where "h = set_buffering w' (bufsiz (stream p)) g" by blast
  then show ?thesis using set_buffering_cases [of "bufsiz (stream p)" w' g] by simp
qed

lemma piped_launch:
  "\<exists>p' w'. execute_process piped_popen piped_world = Returns p' w' \<and>
     stdio_block w' = (\<lambda>m n. if m = IONBF then 1 else 4096) \<and>
     output (stream p') = Some \<lparr>fileno = 3, fmode = ''rb'', buf_mode = IOFBF, buf_size = 4096\<rparr>"
  by (simp add: example_defs code_defs sys_defs Let_def upt_rec)

theorem buffering_selector_witness:
  "\<exists>p' w' h. execute_process piped_popen piped_world = Returns p' w'
     \<and> output (stream p') = Some h \<and> bufsiz (stream piped_popen) = 4096
     \<and> stdio_block w' IOFBF 4096 = 4096
     \<and> buf_mode h = IOFBF \<and> buf_size h = 4096"
proof -
  from piped_launch obtain p' w'
    where r: "execute_process piped_popen piped_world = Returns p' w'"
      and l: "stdio_block w' = (\<lambda>m n. if m = IONBF then 1 else 4096)"
      and o: "output (stream p') = Some \<lparr>fileno = 3, fmode = ''rb'', buf_mode = IOFBF, buf_size = 4096\<rparr>"
    by blast
  have b: "bufsiz (stream piped_popen) = 4096"
    by (simp add: piped_popen_def Popen_init_def Streams_init_def populate_c_argv_def)
  have m: "Some \<lparr>fileno = 3, fmode = ''rb'', buf_mode = IOFBF, buf_size = 4096\<rparr>
             \<in> {input (stream p'), output (stream p'), error (stream p')}"
    using o by simp
  from buffering_selector [OF r m] b r o l show ?thesis by simp
qed

text \<open>
  The claim as stated fails with a C library that ignores the requested size when it is
  given no buffer and uses blocks of 4096 bytes: for the selector 2 the handle is fully
  buffered with block size 4096, not 2.
\<close>

theorem buffering_selector_counterexample:
  "bufsiz (stream small_buf_popen) = 2
   \<and> map_option (\<lambda>q. map_option buf_mode (output (stream q)))
       (outcome_popen (execute_process small_buf_popen piped_world)) = Some (Some IOFBF)
   \<and> map_option (\<lambda>q. map_option buf_size (output (stream q)))
       (outcome_popen (execute_process small_buf_popen piped_world)) = Some (Some 4096)"
  by (simp add: small_buf_popen_def example_defs code_defs sys_defs Let_def upt_rec)

section \<open>A failed fork\<close>

text \<open>
  C3, as amended. When the error channel was created and \<^verbatim>\<open>fork\<close> fails, the launch
  closes both ends of the error channel after the fork, throws \<^verbatim>\<open>OSError("fork failed")\<close>
  and leaves the descriptor table as it was before the call. The launcher is as before
  but for two members: the executable name, which was resolved to the first token when
  it was empty, and the child pid, which holds what \<^verbatim>\<open>fork\<close> returned.
\<close>

theorem fork_failure_state:
  assumes "pipe_cloexec w = Inr ((rd, wr), w1)"
    and "fork_ret w (forks w) < 0"
    and "exe_name p \<noteq> [] \<or> vargs p \<noteq> []"
  shows "\<exists>w'. execute_process p w =
           Throws (OSError ''fork failed'' EAGAIN)
             (p\<lparr>exe_name := (if exe_name p = [] then hd (vargs p) else exe_name p),
                child_pid := fork_ret w (forks w)\<rparr>) w'
         \<and> fdt w' = fdt w
         \<and> calls w' = calls w1 @ [Sys_fork, Sys_close rd, Sys_close wr]"
proof -
  note f = pipe_cloexec_fds [OF assms(1)]
  obtain w2 where w2: "sys_fork w1 = (fork_ret w (forks w), w2)"
    and t2: "fdt w2 = fdt w1" and e2: "errno w2 = EAGAIN"
    and c2: "calls w2 = calls w1 @ [Sys_fork]"
    using assms(2) by (simp add: sys_fork_def called_def Let_def f)
  let ?w4 = "snd (sys_close wr (snd (sys_close rd w2)))"
  have r: "fdt ?w4 = fdt w"
    by (rule close_pair_restores [OF f(1) f(2) f(5) f(6) t2])
  have o1: "fdt w2 rd \<noteq> None" using f(5) [of rd] t2 by simp
  have o2: "fdt (snd (sys_close rd w2)) wr \<noteq> None"
    using f(5) [of wr] f(1) f(2) f(10) t2 o1
    by (auto simp: sys_close_def called_def Let_def split: option.splits)
  have e4: "errno ?w4 = EAGAIN" using o1 o2 e2 by (auto simp: sys_close_calls)
  have c4: "calls ?w4 = calls w1 @ [Sys_fork, Sys_close rd, Sys_close wr]"
    by (simp add: sys_close_calls c2)
  have "execute_process p w =
           Throws (OSError ''fork failed'' EAGAIN)
             (p\<lparr>exe_name := (if exe_name p = [] then hd (vargs p) else exe_name p),
                child_pid := fork_ret w (forks w)\<rparr>) ?w4"
    using assms w2 e4
    by (auto simp: execute_process_def execute_process_body_def Let_def exception_spec_def)
  with r c4 show ?thesis by blast
qed

theorem fork_failure_state_witness:
  "\<exists>w'. execute_process (Popen_init\<lparr>vargs := [''ls'']\<rparr>) nofork_world =
           Throws (OSError ''fork failed'' EAGAIN)
             (Popen_init\<lparr>vargs := [''ls''], exe_name := ''ls'', child_pid := -1\<rparr>) w'
       \<and> fdt w' = fdt nofork_world"
proof -
  have "\<exists>w1. pipe_cloexec nofork_world = Inr ((3, 4), w1)"
    by (simp add: nofork_world_def example_defs code_defs sys_defs Let_def upt_rec)
  then obtain w1 where a: "pipe_cloexec nofork_world = Inr ((3, 4), w1)" by blast
  have b: "fork_ret nofork_world (forks nofork_world) < 0"
    by (simp add: nofork_world_def example_defs)
  have c: "exe_name (Popen_init\<lparr>vargs := [''ls'']\<rparr>) \<noteq> [] \<or> vargs (Popen_init\<lparr>vargs := [''ls'']\<rparr>) \<noteq> []"
    by simp
  have d: "fork_ret nofork_world (forks nofork_world) = -1"
    by (simp add: nofork_world_def example_defs)
  have e: "(Popen_init\<lparr>vargs := [''ls'']\<rparr>)
             \<lparr>exe_name := (if exe_name (Popen_init\<lparr>vargs := [''ls'']\<rparr>) = []
                            then hd (vargs (Popen_init\<lparr>vargs := [''ls'']\<rparr>))
                            else exe_name (Popen_init\<lparr>vargs := [''ls'']\<rparr>)),
              child_pid := - 1\<rparr>
           = Popen_init\<lparr>vargs := [''ls''], exe_name := ''ls'', child_pid := -1\<rparr>"
    by (simp add: Popen_init_def)
  from fork_failure_state [OF a b c] show ?thesis
    unfolding d e by blast
qed

text \<open>
  The claim as stated fails: a launcher whose executable name is unset has it set to
  \<^verbatim>\<open>ls\<close> after the failed launch.
\<close>

theorem fork_failure_state_counterexample:
  "exe_name (Popen_init\<lparr>vargs := [''ls'']\<rparr>) = []
   \<and> map_option exe_name (outcome_popen (execute_process (Popen_init\<lparr>vargs := [''ls'']\<rparr>) nofork_world))
       = Some ''ls''
   \<and> outcome_popen (execute_process (Popen_init\<lparr>vargs := [''ls'']\<rparr>) nofork_world)
       \<noteq> Some (Popen_init\<lparr>vargs := [''ls'']\<rparr>)"
  by (simp add: nofork_world_def example_defs code_defs sys_defs Let_def upt_rec)

section \<open>Stream specifications and the slots\<close>

lemma sys_open_nonneg: "sys_open f fl w = (fd, w') \<Longrightarrow> fd \<noteq> -1 \<Longrightarrow> 0 \<le> fd \<and> fdt w' fd \<noteq> None"
  by (auto simp: sys_open_def Let_def called_def split: if_splits option.splits dest!: lowest_free_Some)

lemma spec_pipe_ends:
  "spec_pipe r nd typ w = Some (Inr (ch, w')) \<Longrightarrow> 0 \<le> rd_ch ch \<and> 0 \<le> wr_ch ch"
  by (auto simp: spec_pipe_def input_pipe_def output_pipe_def error_pipe_def
      split: role.splits if_splits sum.splits prod.splits dest: pipe_cloexec_fds(3,4))

lemma spec_file_ends:
  "spec_file r f w = Inr (ch, w') \<Longrightarrow>
   (case r of Role_stdin \<Rightarrow> 0 \<le> rd_ch ch \<and> wr_ch ch = -1 | Role_stdout \<Rightarrow> 0 \<le> wr_ch ch \<and> rd_ch ch = -1 | Role_stderr \<Rightarrow> 0 \<le> wr_ch ch \<and> rd_ch ch = -1)"
  by (auto simp: spec_file_def input_file_def output_file_def error_file_def
      split: role.splits if_splits prod.splits dest: sys_open_nonneg)

lemma apply_spec_slots:
  "child_slot r (stream (apply_spec r ch p)) = (case r of Role_stdin \<Rightarrow> rd_ch ch | Role_stdout \<Rightarrow> wr_ch ch | Role_stderr \<Rightarrow> wr_ch ch)"
  "parent_slot r (stream (apply_spec r ch p)) =
     (let e = (case r of Role_stdin \<Rightarrow> wr_ch ch | Role_stdout \<Rightarrow> rd_ch ch | Role_stderr \<Rightarrow> rd_ch ch)
      in if e \<noteq> -1 then e else parent_slot r (stream p))"
  by (auto simp: apply_spec_def child_slot_def parent_slot_def Let_def split: role.splits)

text \<open>
  C9, as amended. After a stream specification is applied for a role: for a pipe, the
  parent-owned and the child-owned slot of the role are both set; for a file, the
  child-owned slot is set and the parent-owned slot is left as it was; for a supplied
  descriptor, the child-owned slot holds that descriptor and the parent-owned slot is
  left as it was. In a fresh configuration the parent-owned slot was unset, so it stays
  unset beside a child-owned slot that is set.
\<close>

theorem stream_spec_slots:
  "(\<forall>ch w'. spec_pipe r nd typ w = Some (Inr (ch, w')) \<longrightarrow>
      parent_slot r (stream (apply_spec r ch p)) \<noteq> -1 \<and>
      child_slot r (stream (apply_spec r ch p)) \<noteq> -1)
   \<and> (\<forall>ch w'. spec_file r f w = Inr (ch, w') \<longrightarrow>
      child_slot r (stream (apply_spec r ch p)) \<noteq> -1 \<and>
      parent_slot r (stream (apply_spec r ch p)) = parent_slot r (stream p))
   \<and> child_slot r (stream (apply_spec r (spec_fd r fd) p)) = fd
   \<and> parent_slot r (stream (apply_spec r (spec_fd r fd) p)) = parent_slot r (stream p)"
proof (intro conjI allI impI)
  fix ch w' assume a: "spec_pipe r nd typ w = Some (Inr (ch, w'))"
  from spec_pipe_ends [OF a]
  show "parent_slot r (stream (apply_spec r ch p)) \<noteq> -1"
    and "child_slot r (stream (apply_spec r ch p)) \<noteq> -1"
    by (auto simp: apply_spec_slots Let_def split: role.splits)
next
  fix ch w' assume a: "spec_file r f w = Inr (ch, w')"
  from spec_file_ends [OF a]
  show "child_slot r (stream (apply_spec r ch p)) \<noteq> -1"
    and "parent_slot r (stream (apply_spec r ch p)) = parent_slot r (stream p)"
    by (auto simp: apply_spec_slots Let_def split: role.splits)
next
  show "child_slot r (stream (apply_spec r (spec_fd r fd) p)) = fd"
    and "parent_slot r (stream (apply_spec r (spec_fd r fd) p)) = parent_slot r (stream p)"
    by (auto simp: apply_spec_slots Let_def spec_fd_def input_fd_def output_fd_def error_fd_def
        split: role.splits)
qed

text \<open>
  The claim as stated fails for \<^verbatim>\<open>input{5}\<close> on a fresh configuration: the child-owned
  slot is 5 and the parent-owned slot is unset.
\<close>

theorem stream_spec_slots_counterexample:
  "\<not> both_or_neither Role_stdin (stream (apply_spec Role_stdin (spec_fd Role_stdin 5) Popen_init))"
  by (simp add: both_or_neither_def apply_spec_def spec_fd_def input_fd_def Popen_init_def
      Streams_init_def parent_slot_def child_slot_def)

theorem stream_spec_slots_witness:
  "\<exists>ch w'. spec_pipe Role_stdout False PIPE tty_world = Some (Inr (ch, w'))
     \<and> parent_slot Role_stdout (stream (apply_spec Role_stdout ch Popen_init)) = 3
     \<and> child_slot Role_stdout (stream (apply_spec Role_stdout ch Popen_init)) = 4
     \<and> parent_slot Role_stdout (stream (apply_spec Role_stdout ch Popen_init)) \<noteq> -1
     \<and> child_slot Role_stdout (stream (apply_spec Role_stdout ch Popen_init)) \<noteq> -1"
proof -
  have "\<exists>w'. spec_pipe Role_stdout False PIPE tty_world = Some (Inr (\<lparr>rd_ch = 3, wr_ch = 4\<rparr>, w'))"
    by (simp add: spec_pipe_def output_pipe_def example_defs code_defs sys_defs Let_def upt_rec)
  then obtain w' where
    a: "spec_pipe Role_stdout False PIPE tty_world = Some (Inr (\<lparr>rd_ch = 3, wr_ch = 4\<rparr>, w'))"
    by blast
  have b: "parent_slot Role_stdout (stream (apply_spec Role_stdout \<lparr>rd_ch = 3, wr_ch = 4\<rparr> Popen_init)) = 3"
    "child_slot Role_stdout (stream (apply_spec Role_stdout \<lparr>rd_ch = 3, wr_ch = 4\<rparr> Popen_init)) = 4"
    by (simp_all add: apply_spec_def parent_slot_def child_slot_def Popen_init_def Streams_init_def)
  from stream_spec_slots [of Role_stdout False PIPE tty_world Popen_init]
  have "parent_slot Role_stdout (stream (apply_spec Role_stdout \<lparr>rd_ch = 3, wr_ch = 4\<rparr> Popen_init)) \<noteq> -1
      \<and> child_slot Role_stdout (stream (apply_spec Role_stdout \<lparr>rd_ch = 3, wr_ch = 4\<rparr> Popen_init)) \<noteq> -1"
    using a by blast
  with a b show ?thesis by blast
qed

section \<open>The explicit trigger\<close>

lemma exception_spec_idem: "exception_spec (exception_spec out) = exception_spec out"
  by (cases out) (auto simp: exception_spec_def split: exn.splits)

lemma execute_process_no_assert: "execute_process p w \<noteq> Aborts Assertion_failed q v"
  unfolding execute_process_def execute_process_body_def
  by (auto simp: exception_spec_def Let_def split: sum.splits prod.splits if_splits try_result.splits exn.splits outcome.splits)

lemma execute_process_defer:
  "execute_process p w = Returns p' w' \<Longrightarrow> defer_process_start p' = defer_process_start p"
  unfolding execute_process_def exception_spec_Returns execute_process_body_def
  by (auto simp: Let_def split: sum.splits prod.splits if_splits try_result.splits)

text \<open>
  C5, as amended. When the start was not deferred, \<^verbatim>\<open>start_process\<close> fails its assertion
  (and returns without doing anything where assertions are compiled out). When the start
  was deferred, every call of \<^verbatim>\<open>start_process\<close> is a launch: also the call that follows
  a launch that returned, which is a second launch and never the failed assertion.
\<close>

theorem start_process_contract:
  "(\<not> defer_process_start p \<longrightarrow>
      start_process False p w = Aborts Assertion_failed p w \<and> start_process True p w = Returns p w)
   \<and> (defer_process_start p \<longrightarrow> start_process nd p w = execute_process p w)
   \<and> (defer_process_start p \<longrightarrow> start_process nd p w = Returns p1 w1 \<longrightarrow>
        start_process nd p1 w1 = execute_process p1 w1
        \<and> start_process nd p1 w1 \<noteq> Aborts Assertion_failed q v)"
proof (intro conjI impI)
  assume "\<not> defer_process_start p"
  then show "start_process False p w = Aborts Assertion_failed p w"
    and "start_process True p w = Returns p w"
    by (simp_all add: start_process_def exception_spec_def)
next
  assume "defer_process_start p"
  then show "start_process nd p w = execute_process p w"
    by (simp add: start_process_def execute_process_def exception_spec_idem)
next
  assume d: "defer_process_start p" and r: "start_process nd p w = Returns p1 w1"
  from d r have "execute_process p w = Returns p1 w1"
    by (simp add: start_process_def execute_process_def exception_spec_idem)
  then have d1: "defer_process_start p1" using d by (simp add: execute_process_defer)
  then show e: "start_process nd p1 w1 = execute_process p1 w1"
    by (simp add: start_process_def execute_process_def exception_spec_idem)
  show "start_process nd p1 w1 \<noteq> Aborts Assertion_failed q v"
    unfolding e by (rule execute_process_no_assert)
qed

text \<open>
  The claim as stated fails: the second call of the trigger returns, with the pid of a
  second child, after a second \<^verbatim>\<open>fork\<close>.
\<close>

theorem start_process_contract_counterexample:
  "returned (start_twice False deferred_popen parent_world)
   \<and> map_option child_pid (outcome_popen (start_twice False deferred_popen parent_world)) = Some 43
   \<and> map_option forks (outcome_world (start_twice False deferred_popen parent_world)) = Some 2"
  by (simp add: start_twice_def returned_def deferred_popen_def example_defs code_defs sys_defs Let_def upt_rec)

theorem start_process_contract_witness:
  "\<not> defer_process_start (Popen_init\<lparr>vargs := [''ls'']\<rparr>)
   \<and> start_process False (Popen_init\<lparr>vargs := [''ls'']\<rparr>) tty_world
       = Aborts Assertion_failed (Popen_init\<lparr>vargs := [''ls'']\<rparr>) tty_world
   \<and> defer_process_start deferred_popen
   \<and> (\<exists>p1 w1. start_process False deferred_popen parent_world = Returns p1 w1
        \<and> start_process False p1 w1 = execute_process p1 w1)"
proof -
  have a: "\<not> defer_process_start (Popen_init\<lparr>vargs := [''ls'']\<rparr>)"
    by (simp add: Popen_init_def)
  have b: "defer_process_start deferred_popen"
    by (simp add: deferred_popen_def Popen_init_def populate_c_argv_def)
  have "\<exists>p1 w1. start_process False deferred_popen parent_world = Returns p1 w1"
    by (simp add: deferred_popen_def example_defs code_defs sys_defs Let_def upt_rec)
  then obtain p1 w1 where c: "start_process False deferred_popen parent_world = Returns p1 w1"
    by blast
  from start_process_contract [of "Popen_init\<lparr>vargs := [''ls'']\<rparr>" tty_world] a
  have d: "start_process False (Popen_init\<lparr>vargs := [''ls'']\<rparr>) tty_world
             = Aborts Assertion_failed (Popen_init\<lparr>vargs := [''ls'']\<rparr>) tty_world"
    by blast
  from start_process_contract
         [where p = deferred_popen and nd = False and w = parent_world
            and ?p1.0 = p1 and ?w1.0 = w1] b c
  have "start_process False p1 w1 = execute_process p1 w1" by blast
  with a b c d show ?thesis by blast
qed

section \<open>The environment of the child\<close>

lemma c_str_id: "CHR 0x00 \<notin> set s \<Longrightarrow> c_str s = s"
  by (auto simp: c_str_def)

lemma sys_environ [simp]:
  "environ (snd (sys_close fd w)) = environ w"
  "environ (snd (sys_dup fd w)) = environ w"
  "environ (snd (sys_dup2 fd t w)) = environ w"
  "environ (snd (sys_sysconf w)) = environ w"
  "environ (snd (sys_chdir d w)) = environ w"
  "environ (snd (sys_fork w)) = environ w"
  by (auto simp: sys_close_def sys_dup_def sys_dup2_def sys_sysconf_def sys_chdir_def
      sys_fork_def called_def Let_def split: option.splits)

lemma close_if_environ [simp]: "environ (close_if c fd w) = environ w"
  by (simp add: close_if_def)

lemma close_parent_fds_environ [simp]: "environ (close_parent_fds s w) = environ w"
  by (simp add: close_parent_fds_def Let_def)

lemma child_normalize_environ: "child_normalize s w = (s', w') \<Longrightarrow> environ w' = environ w"
  by (auto simp: child_normalize_def Let_def case_prod_beta split: if_splits)

lemma lambda_dup2_environ: "lambda_dup2 fd t w = Inr w' \<Longrightarrow> environ w' = environ w"
  by (auto simp: lambda_dup2_def set_clo_on_exec_rest case_prod_beta split: if_splits)

lemma child_std_streams_environ: "child_std_streams s w = Inr w' \<Longrightarrow> environ w' = environ w"
  by (auto simp: child_std_streams_def then_do_Inr dest!: lambda_dup2_environ)

lemma child_close_duped_environ [simp]: "environ (child_close_duped s w) = environ w"
  by (simp add: child_close_duped_def Let_def)

lemma close_sweep_environ:
  "environ (foldl (\<lambda>v i. if i = e then v else snd (sys_close i v)) w xs) = environ w"
  by (induction xs arbitrary: w) simp_all

lemma child_close_inherited_environ:
  "child_close_inherited c e w = Inr w' \<Longrightarrow> environ w' = environ w"
  by (auto simp: child_close_inherited_def close_sweep_environ case_prod_beta split: if_splits)

lemma child_chdir_environ: "child_chdir d w = Inr w' \<Longrightarrow> environ w' = environ w"
  by (auto simp: child_chdir_def case_prod_beta split: if_splits)

lemma execute_child_try_exec:
  assumes "execute_child_try p e w = Inr img"
  shows "\<exists>v. child_exec p v = Inr img \<and> environ v = environ w"
proof -
  obtain s w1 where n: "child_normalize (stream p) w = (s, w1)" by (cases "child_normalize (stream p) w")
  from assms n obtain w2 w3 w4 where
    a: "child_std_streams s w1 = Inr w2"
    and b: "child_close_inherited (close_fds p) e (child_close_duped s w2) = Inr w3"
    and c: "child_chdir (cwd p) w3 = Inr w4"
    and d: "child_exec p w4 = Inr img"
    by (auto simp: execute_child_try_def then_do_Inr)
  have "environ w4 = environ w"
    using child_normalize_environ [OF n] child_std_streams_environ [OF a]
      child_close_inherited_environ [OF b] child_chdir_environ [OF c] by simp
  with d show ?thesis by blast
qed

lemma child_setenv_other:
  "n \<notin> (\<lambda>kv. c_str (fst kv)) ` set kvs \<Longrightarrow> environ (child_setenv kvs w) n = environ w n"
  by (induction kvs arbitrary: w) (auto simp: sys_setenv_def called_def Let_def)

lemma child_setenv_mapped:
  "distinct (map (\<lambda>kv. c_str (fst kv)) kvs) \<Longrightarrow> (k, v) \<in> set kvs \<Longrightarrow>
   c_str k \<noteq> [] \<Longrightarrow> CHR ''='' \<notin> set (c_str k) \<Longrightarrow>
   environ (child_setenv kvs w) (c_str k) = Some (c_str v)"
proof (induction kvs arbitrary: w)
  case Nil
  then show ?case by simp
next
  case (Cons a kvs)
  show ?case
  proof (cases "a = (k, v)")
    case True
    have "c_str k \<notin> (\<lambda>kv. c_str (fst kv)) ` set kvs" using Cons.prems(1) True by auto
    then show ?thesis using True Cons.prems(3,4)
      by (simp add: child_setenv_other sys_setenv_def called_def Let_def)
  next
    case False
    then show ?thesis using Cons by auto
  qed
qed

lemma child_exec_env:
  "child_exec p v = Inr img \<Longrightarrow>
   img_env img = environ (if env p \<noteq> [] then child_setenv (env p) v else v)"
  by (auto simp: child_exec_def sys_execvp_def called_def Let_def split: sum.splits if_splits)

lemma pipe_cloexec_environ: "pipe_cloexec w = Inr (fds, w1) \<Longrightarrow> environ w1 = environ w"
  using pipe_cloexec_fds(9) [of w "fst fds" "snd fds" w1] by simp

lemma execute_process_child:
  assumes "execute_process p w = Child c"
  shows "\<exists>q e u. c = execute_child q e u \<and> env q = env p \<and> environ u = environ w"
proof -
  from assms have b: "execute_process_body p w = Child c"
    by (simp add: execute_process_def exception_spec_Child)
  then obtain fds w1 where p1: "pipe_cloexec w = Inr (fds, w1)"
    by (auto simp: execute_process_body_def split: sum.splits prod.splits)
  let ?p1 = "if exe_name p = [] then p\<lparr>exe_name := hd (vargs p)\<rparr> else p"
  let ?q = "?p1\<lparr>child_pid := fst (sys_fork w1)\<rparr>"
  let ?u = "snd (sys_close (fst fds) (close_parent_fds (stream ?q) (snd (sys_fork w1))))"
  from b p1 have "c = execute_child ?q (snd fds) ?u"
    by (cases fds)
       (auto simp: execute_process_body_def Let_def case_prod_beta
          split: if_splits try_result.splits)
  moreover have "env ?q = env p" by simp
  moreover have "environ ?u = environ w" using pipe_cloexec_environ [OF p1] by simp
  ultimately show ?thesis by blast
qed

lemma execute_process_exec:
  assumes "execute_process p w = Child (Exec img)"
  shows "\<exists>v. environ v = environ w \<and>
            img_env img = environ (if env p \<noteq> [] then child_setenv (env p) v else v)"
proof -
  from execute_process_child [OF assms] obtain q e u where
    c: "execute_child q e u = Exec img" and q: "env q = env p" and u: "environ u = environ w"
    by metis
  from c have "execute_child_try q e u = Inr img"
    by (auto simp: execute_child_def split: sum.splits prod.splits exn.splits)
  from execute_child_try_exec [OF this] obtain v
    where "child_exec q v = Inr img" and "environ v = environ u" by blast
  with child_exec_env [of q v img] q u show ?thesis by auto
qed


text \<open>
  C1, as amended. If a non-empty environment mapping is configured, with variable names
  that are not empty and have no \<^verbatim>\<open>=\<close> (and no NUL in names and values), the child that
  reaches the image replacement hands over the parent's environment with the mapping
  laid over it: every mapped key is present with its mapped value, and every variable
  that is absent from the mapping has what it had in the parent's environment at the
  launch, so a variable of the parent stays visible to the child.
\<close>

theorem environment_overlay:
  assumes "execute_process p w = Child (Exec img)"
    and "env p \<noteq> []"
    and "distinct (map fst (env p))"
    and "\<forall>kv \<in> set (env p). fst kv \<noteq> [] \<and> CHR ''='' \<notin> set (fst kv)
           \<and> CHR 0x00 \<notin> set (fst kv) \<and> CHR 0x00 \<notin> set (snd kv)"
  shows "(\<forall>kv \<in> set (env p). img_env img (fst kv) = Some (snd kv))
       \<and> (\<forall>n. n \<notin> fst ` set (env p) \<longrightarrow> img_env img n = environ w n)"
proof -
  from execute_process_exec [OF assms(1)] assms(2) obtain v
    where v: "environ v = environ w" and i: "img_env img = environ (child_setenv (env p) v)"
    by auto
  have k: "map (\<lambda>kv. c_str (fst kv)) (env p) = map fst (env p)"
    by (rule map_cong [OF refl]) (use assms(4) in \<open>simp add: c_str_id\<close>)
  have d: "distinct (map (\<lambda>kv. c_str (fst kv)) (env p))"
    unfolding k by (rule assms(3))
  have s: "(\<lambda>kv. c_str (fst kv)) ` set (env p) = fst ` set (env p)"
    using arg_cong [OF k, of set] by simp
  show ?thesis
  proof (intro conjI ballI allI impI)
    fix kv assume m: "kv \<in> set (env p)"
    then have "(fst kv, snd kv) \<in> set (env p)" by simp
    moreover have "c_str (fst kv) = fst kv" "c_str (snd kv) = snd kv"
      using assms(4) m by (simp_all add: c_str_id)
    moreover have "fst kv \<noteq> []" "CHR ''='' \<notin> set (fst kv)" using assms(4) m by simp_all
    ultimately show "img_env img (fst kv) = Some (snd kv)"
      using child_setenv_mapped [OF d, of "fst kv" "snd kv" v] i by simp
  next
    fix n assume "n \<notin> fst ` set (env p)"
    then have "n \<notin> (\<lambda>kv. c_str (fst kv)) ` set (env p)" using s by simp
    from child_setenv_other [OF this, of v] show "img_env img n = environ w n"
      using i v by simp
  qed
qed

lemma env_popen_exec:
  "\<exists>img. execute_process env_popen tty_world = Child (Exec img)"
  by (simp add: env_popen_def example_defs code_defs sys_defs Let_def upt_rec)

theorem environment_overlay_witness:
  "\<exists>img. execute_process env_popen tty_world = Child (Exec img)
     \<and> env env_popen = [(''X'', ''1'')]
     \<and> img_env img ''X'' = Some ''1''
     \<and> environ tty_world ''HOME'' = Some ''/root''
     \<and> img_env img ''HOME'' = Some ''/root''"
proof -
  from env_popen_exec obtain img
    where a: "execute_process env_popen tty_world = Child (Exec img)" by blast
  have e: "env env_popen = [(''X'', ''1'')]"
    by (simp add: env_popen_def Popen_init_def populate_c_argv_def)
  have b: "env env_popen \<noteq> []" "distinct (map fst (env env_popen))"
    "\<forall>kv \<in> set (env env_popen). fst kv \<noteq> [] \<and> CHR ''='' \<notin> set (fst kv)
           \<and> CHR 0x00 \<notin> set (fst kv) \<and> CHR 0x00 \<notin> set (snd kv)"
    by (simp_all add: e)
  have h: "environ tty_world ''HOME'' = Some ''/root''" by (simp add: tty_world_def)
  from environment_overlay [OF a b]
  have "img_env img ''X'' = Some ''1''" and "img_env img ''HOME'' = environ tty_world ''HOME''"
    by (simp_all add: e)
  with a e h show ?thesis by auto
qed

text \<open>
  The claim as stated fails: with the mapping \<^verbatim>\<open>{"X": "1"}\<close>, the variable \<^verbatim>\<open>HOME\<close> of
  the parent, absent from the mapping, is in the environment of the new program.
\<close>

theorem environment_overlay_counterexample:
  "env env_popen \<noteq> []
   \<and> ''HOME'' \<notin> fst ` set (env env_popen)
   \<and> map_option (\<lambda>img. img_env img ''HOME'') (outcome_image (execute_process env_popen tty_world))
       = Some (Some ''/root'')"
  by (simp add: env_popen_def outcome_image_def example_defs code_defs sys_defs Let_def upt_rec)

section \<open>The rewiring of the child\<close>

lemma extends_refl: "extends w w []"
  by (simp add: extends_def fd_ops_def)

lemma extends_trans: "extends w w1 a \<Longrightarrow> extends w1 w2 b \<Longrightarrow> extends w w2 (a @ b)"
  by (auto simp: extends_def fd_ops_def)

lemma extends_new_calls: "extends w w' ops \<Longrightarrow> fd_ops (new_calls w w') = ops"
  by (auto simp: extends_def new_calls_def)

lemma extends_close: "extends w (snd (sys_close fd w)) [Closed fd]"
  by (auto simp: extends_def fd_ops_def sys_close_def called_def Let_def split: option.splits)

lemma extends_close_if: "extends w (close_if c fd w) (if c then [Closed fd] else [])"
  by (simp add: close_if_def extends_close extends_refl)


















section \<open>The re-duplication before the rewiring\<close>


















section \<open>The close paths of the stream set\<close>

lemma extends_three:
  "extends w (close_if c3 f3 (close_if c2 f2 (close_if c1 f1 w)))
     (map Closed ((if c1 then [f1] else []) @ (if c2 then [f2] else []) @ (if c3 then [f3] else [])))"
  using extends_trans [OF extends_close_if [of w c1 f1]
          extends_trans [OF extends_close_if [of _ c2 f2] extends_close_if [of _ c3 f3]]]
  by (simp split: if_splits)

lemma filter3:
  "filter P [a, b, c] = (if P a then [a] else []) @ (if P b then [b] else []) @ (if P c then [c] else [])"
  by simp

lemma close_parent_fds_extends:
  "extends w (close_parent_fds s w)
     (map Closed (filter (\<lambda>fd. fd \<noteq> -1) [write_to_child s, read_from_child s, err_read s]))"
  unfolding close_parent_fds_def Let_def filter3 by (rule extends_three)

lemma close_child_fds_extends:
  "extends w (close_child_fds s w)
     (map Closed (filter (\<lambda>fd. fd \<noteq> -1) [write_to_parent s, read_from_parent s, err_write s]))"
  unfolding close_child_fds_def Let_def filter3 by (rule extends_three)

lemma cleanup_fds_extends:
  "extends w (cleanup_fds s w)
     (map Closed
        ((if write_to_child s \<noteq> -1 \<and> read_from_parent s \<noteq> -1 then [write_to_child s] else [])
         @ (if write_to_parent s \<noteq> -1 \<and> read_from_child s \<noteq> -1 then [read_from_child s] else [])
         @ (if err_write s \<noteq> -1 \<and> err_read s \<noteq> -1 then [err_read s] else [])))"
  unfolding cleanup_fds_def Let_def by (rule extends_three)

lemma setup_comm_channels_slots:
  "setup_comm_channels s w = (s', w') \<Longrightarrow> slots s' = slots s"
  by (auto simp: setup_comm_channels_def Let_def case_prod_beta slots_def split: if_splits)

lemma execute_process_slots:
  assumes "outcome_popen (execute_process p w) = Some p'"
  shows "slots (stream p') = slots (stream p)"
proof -
  have "outcome_popen (exception_spec out) = outcome_popen out" for out
  proof (cases out)
    case (Throws e q u)
    then show ?thesis by (cases e) (simp_all add: exception_spec_def outcome_popen_def)
  qed (simp_all add: exception_spec_def outcome_popen_def)
  with assms have "outcome_popen (execute_process_body p w) = Some p'"
    by (simp add: execute_process_def)
  then show ?thesis
    by (auto simp: execute_process_body_def outcome_popen_def Let_def slots_def
        dest!: setup_comm_channels_slots
        split: sum.splits prod.splits if_splits try_result.splits)
qed

text \<open>
  C4, as amended. Each close path of the stream set closes every descriptor it is
  responsible for once: the parent-side close, the three parent-owned slots that are set;
  the child-side close, the three child-owned slots that are set; the failure cleanup,
  the parent-owned slot of every role whose two slots are set. When the slots that are
  set hold different descriptors, the two paths of the parent (child-side close, then
  failure cleanup) close no descriptor twice, and neither does the path of the child
  (parent-side close). No path assigns to a slot: after a launch the six slots hold what
  they held before it, also the descriptors that were closed.
\<close>

theorem stream_close_paths:
  "fd_ops (new_calls w (close_parent_fds s w))
     = map Closed (filter (\<lambda>fd. fd \<noteq> -1) [write_to_child s, read_from_child s, err_read s])
   \<and> fd_ops (new_calls w (close_child_fds s w))
     = map Closed (filter (\<lambda>fd. fd \<noteq> -1) [write_to_parent s, read_from_parent s, err_write s])
   \<and> fd_ops (new_calls w (cleanup_fds s w))
     = map Closed
        ((if write_to_child s \<noteq> -1 \<and> read_from_parent s \<noteq> -1 then [write_to_child s] else [])
         @ (if write_to_parent s \<noteq> -1 \<and> read_from_child s \<noteq> -1 then [read_from_child s] else [])
         @ (if err_write s \<noteq> -1 \<and> err_read s \<noteq> -1 then [err_read s] else []))
   \<and> (distinct (filter (\<lambda>fd. fd \<noteq> -1) (slots s)) \<longrightarrow>
        distinct (fd_ops (new_calls w (cleanup_fds s (close_child_fds s w))))
        \<and> distinct (fd_ops (new_calls w (close_parent_fds s w))))
   \<and> (outcome_popen (execute_process p v) = Some p' \<longrightarrow> slots (stream p') = slots (stream p))"
proof (intro conjI impI)
  show "fd_ops (new_calls w (close_parent_fds s w))
     = map Closed (filter (\<lambda>fd. fd \<noteq> -1) [write_to_child s, read_from_child s, err_read s])"
    by (rule extends_new_calls [OF close_parent_fds_extends])
  show "fd_ops (new_calls w (close_child_fds s w))
     = map Closed (filter (\<lambda>fd. fd \<noteq> -1) [write_to_parent s, read_from_parent s, err_write s])"
    by (rule extends_new_calls [OF close_child_fds_extends])
  show "fd_ops (new_calls w (cleanup_fds s w))
     = map Closed
        ((if write_to_child s \<noteq> -1 \<and> read_from_parent s \<noteq> -1 then [write_to_child s] else [])
         @ (if write_to_parent s \<noteq> -1 \<and> read_from_child s \<noteq> -1 then [read_from_child s] else [])
         @ (if err_write s \<noteq> -1 \<and> err_read s \<noteq> -1 then [err_read s] else []))"
    by (rule extends_new_calls [OF cleanup_fds_extends])
  show "slots (stream p') = slots (stream p)" if "outcome_popen (execute_process p v) = Some p'"
    using that by (rule execute_process_slots)
next
  assume d: "distinct (filter (\<lambda>fd. fd \<noteq> -1) (slots s))"
  have "fd_ops (new_calls w (cleanup_fds s (close_child_fds s w))) =
      map Closed (filter (\<lambda>fd. fd \<noteq> -1) [write_to_parent s, read_from_parent s, err_write s])
      @ map Closed
        ((if write_to_child s \<noteq> -1 \<and> read_from_parent s \<noteq> -1 then [write_to_child s] else [])
         @ (if write_to_parent s \<noteq> -1 \<and> read_from_child s \<noteq> -1 then [read_from_child s] else [])
         @ (if err_write s \<noteq> -1 \<and> err_read s \<noteq> -1 then [err_read s] else []))"
    by (rule extends_new_calls [OF extends_trans [OF close_child_fds_extends cleanup_fds_extends]])
  with d show "distinct (fd_ops (new_calls w (cleanup_fds s (close_child_fds s w))))"
    by (auto simp: slots_def split: if_splits)
  from d show "distinct (fd_ops (new_calls w (close_parent_fds s w)))"
    unfolding extends_new_calls [OF close_parent_fds_extends]
    by (auto simp: slots_def split: if_splits)
qed

text \<open>
  The claim as stated fails. After a launch that returned, the child-owned slot of
  stdout still holds 4, which the launch closed. A second call of the trigger therefore
  closes 4 again, where 4 is by then the read end of the new error channel.
\<close>

theorem stream_close_paths_counterexample:
  "map_option (\<lambda>p. slots (stream p)) (outcome_popen (execute_process piped_popen piped_world))
     = Some [-1, -1, 4, 3, -1, -1]
   \<and> map_option (\<lambda>v. fd_ops (calls v)) (outcome_world (execute_process piped_popen piped_world))
     = Some [Cloexec_set 5, Cloexec_set 6, Closed 6, Closed 4, Closed 5]
   \<and> map_option (\<lambda>v. fd_ops (calls v))
       (outcome_world (start_twice False deferred_piped_popen piped_world))
     = Some [Cloexec_set 5, Cloexec_set 6, Closed 6, Closed 4, Closed 5,
             Cloexec_set 4, Cloexec_set 5, Closed 5, Closed 4, Closed 4, Closed 3]"
  by (simp add: deferred_piped_popen_def example_defs code_defs sys_defs Let_def upt_rec wait_once slots_def fd_ops_def
      start_twice_def)

theorem stream_close_paths_witness:
  "distinct (filter (\<lambda>fd. fd \<noteq> -1) (slots (stream piped_popen)))
   \<and> fd_ops (new_calls piped_world (close_child_fds (stream piped_popen) piped_world)) = [Closed 4]
   \<and> distinct (fd_ops (new_calls piped_world
         (cleanup_fds (stream piped_popen) (close_child_fds (stream piped_popen) piped_world))))
   \<and> (\<exists>p'. outcome_popen (execute_process piped_popen piped_world) = Some p'
         \<and> slots (stream p') = [-1, -1, 4, 3, -1, -1])"
proof -
  have s: "slots (stream piped_popen) = [-1, -1, 4, 3, -1, -1]"
    "write_to_parent (stream piped_popen) = 4" "read_from_parent (stream piped_popen) = -1"
    "err_write (stream piped_popen) = -1"
    by (simp_all add: piped_popen_def slots_def Popen_init_def Streams_init_def populate_c_argv_def)
  have d: "distinct (filter (\<lambda>fd. fd \<noteq> -1) (slots (stream piped_popen)))"
    by (simp add: s)
  have "\<exists>p'. outcome_popen (execute_process piped_popen piped_world) = Some p'"
    by (simp add: example_defs code_defs sys_defs Let_def upt_rec)
  then obtain p' where o: "outcome_popen (execute_process piped_popen piped_world) = Some p'"
    by blast
  note t = stream_close_paths [of piped_world "stream piped_popen" piped_popen piped_world p']
  from t have 1: "fd_ops (new_calls piped_world (close_child_fds (stream piped_popen) piped_world))
      = [Closed 4]" by (simp add: s)
  from t d have 2: "distinct (fd_ops (new_calls piped_world
         (cleanup_fds (stream piped_popen) (close_child_fds (stream piped_popen) piped_world))))"
    by blast
  from t o have 3: "slots (stream p') = [-1, -1, 4, 3, -1, -1]" by (simp add: s)
  from d 1 2 3 o show ?thesis by blast
qed

section \<open>The launch error\<close>

text \<open>
  What the parent does with the error channel, one step at a time: at end-of-data with
  nothing read the \<^verbatim>\<open>try\<close> block passes; a payload that arrives in one read, shorter
  than the buffer and without NUL, becomes the message of the launch error that the
  \<^verbatim>\<open>try\<close> block throws once the child is reaped; the wait loop returns as soon as a
  poll returns something other than 0; a delivery of 1025 bytes is read whole, in two
  reads; and no call of \<^verbatim>\<open>execute_process\<close> ends by throwing a launch error.
\<close>

lemma execute_process_no_launch_error:
  "execute_process p w \<noteq> Throws (CalledProcessError m) q v"
  unfolding execute_process_def execute_process_body_def
  by (auto simp: exception_spec_def Let_def pipe_cloexec_def
      split: sum.splits prod.splits if_splits try_result.splits exn.splits outcome.splits option.splits)

lemma read_end_of_data:
  "fdt w fd \<noteq> None \<Longrightarrow> errchan w = [] \<Longrightarrow>
   read_atmost_n fd buf n w = (0, buf, called (Sys_read fd n) w)"
  by (auto simp: read_atmost_n_def sys_read_def Let_def called_def)

lemma read_one_delivery:
  assumes "fdt w fd \<noteq> None" and "errchan w = [Bytes m]" and "m \<noteq> []" and "length m \<le> n"
  shows "\<exists>v. read_atmost_n fd buf n w = (int (length m), m @ drop (length m) buf, v)
            \<and> fdt v = fdt w \<and> waitpid_ret v = waitpid_ret w \<and> polls v = polls w"
  using assms
  by (auto simp: read_atmost_n_def sys_read_def Let_def called_def)

lemma c_string_in_padded:
  "CHR 0x00 \<notin> set m \<Longrightarrow> 0 < k \<Longrightarrow> c_string_in (m @ replicate k (CHR 0x00)) = Some m"
  by (cases k) (auto simp: c_string_in_def c_str_def takeWhile_append)

lemma try_passes:
  assumes "fdt w rd \<noteq> None" and "errchan w = []"
  shows "\<exists>v. execute_process_try rd pid w = Passed v"
  using assms
  by (simp add: execute_process_try_def read_end_of_data c_string_in_def c_str_def
      SP_MAX_ERR_BUF_SIZ_def Let_def)

lemma try_constructs_launch_error:
  assumes "fdt w rd \<noteq> None" and "errchan w = [Bytes m]" and "m \<noteq> []"
    and "length m < SP_MAX_ERR_BUF_SIZ" and "CHR 0x00 \<notin> set m"
    and "waitpid_ret w (polls w) \<noteq> 0" and "waitpid_ret w (polls w) \<noteq> -1"
    and "0 < pid"
  shows "thrown_exn (execute_process_try rd pid w) = Some (CalledProcessError m)"
proof -
  from read_one_delivery [OF assms(1,2,3), of SP_MAX_ERR_BUF_SIZ "replicate SP_MAX_ERR_BUF_SIZ (CHR 0x00)"] assms(4)
  obtain v where r: "read_atmost_n rd (replicate SP_MAX_ERR_BUF_SIZ (CHR 0x00)) SP_MAX_ERR_BUF_SIZ w
       = (int (length m), m @ replicate (SP_MAX_ERR_BUF_SIZ - length m) (CHR 0x00), v)"
    and k: "waitpid_ret v = waitpid_ret w" "polls v = polls w"
    by auto
  let ?v2 = "snd (sys_close rd v)"
  have p: "waitpid_ret ?v2 (polls ?v2) \<noteq> 0" "waitpid_ret ?v2 (polls ?v2) \<noteq> -1"
    using k assms(6,7) by (auto simp: sys_close_def called_def Let_def split: option.splits)
  have c: "c_string_in (m @ replicate (SP_MAX_ERR_BUF_SIZ - length m) (CHR 0x00)) = Some m"
    using assms(4,5) by (simp add: c_string_in_padded)
  show ?thesis
    using assms(3,8)
    by (simp add: execute_process_try_def r Let_def c wait_once [OF p] thrown_exn_def)
qed

lemma read_atmost_n_reads_more:
  "fst (read_atmost_n 3 (replicate SP_MAX_ERR_BUF_SIZ (CHR 0x00)) SP_MAX_ERR_BUF_SIZ
          (piped_world\<lparr>errchan := [Bytes (replicate 1025 (CHR ''a''))]\<rparr>)) = 1025"
  by (simp add: read_atmost_n_def sys_read_def called_def Let_def SP_MAX_ERR_BUF_SIZ_def
      example_defs)

lemma wait_polls:
  assumes "\<forall>j<k. waitpid_ret w (polls w + j) = 0" and "waitpid_ret w (polls w + k) \<noteq> 0"
  shows "\<exists>v. wait_for_child_exit pid w
              = Some (if waitpid_ret w (polls w + k) = -1 then -1 else pid, v)"
  using assms
proof (induction k arbitrary: w)
  case 0
  then show ?case
    by (subst wait_for_child_exit.simps) (simp add: sys_waitpid_def Let_def)
next
  case (Suc k)
  let ?w' = "snd (sys_waitpid pid w)"
  have z: "waitpid_ret w (polls w) = 0" using Suc.prems(1) by force
  have s: "waitpid_ret ?w' = waitpid_ret w" "polls ?w' = Suc (polls w)"
    by (simp_all add: sys_waitpid_def Let_def called_def)
  have "\<forall>j<k. waitpid_ret ?w' (polls ?w' + j) = 0"
    using Suc.prems(1) s by (metis Suc_less_eq add_Suc_shift)
  moreover have "waitpid_ret ?w' (polls ?w' + k) \<noteq> 0" using Suc.prems(2) s by simp
  ultimately obtain v where
    "wait_for_child_exit pid ?w' = Some (if waitpid_ret ?w' (polls ?w' + k) = -1 then -1 else pid, v)"
    using Suc.IH by blast
  then show ?case using z s
    by (subst wait_for_child_exit.simps) (simp add: sys_waitpid_def Let_def)
qed

text \<open>
  C2, at the input where the code departs from it. The child of a launch writes
  \<^verbatim>\<open>execve failed : No such file or directory\<close> to the error channel and the parent
  reaps it. Inside the \<^verbatim>\<open>try\<close> block the parent constructs the launch error, but what
  leaves the handler is a copy with the type \<^verbatim>\<open>std::exception\<close>, which the exception
  specification of \<^verbatim>\<open>execute_process\<close> does not allow: the call ends in
  \<^verbatim>\<open>std::unexpected()\<close> and no launch error is raised. When the same message arrives in
  two reads, the second lands over the start of the first, and the message of the launch
  error constructed in the \<^verbatim>\<open>try\<close> block is not the payload.
\<close>

theorem launch_error_lost:
  "outcome_fatal (execute_process nosuch_popen failed_child_world) = Some (Unexpected Std_exception)
   \<and> outcome_exn (execute_process nosuch_popen failed_child_world) = None
   \<and> thrown_exn (execute_process_try 3 42 reading_world)
       = Some (CalledProcessError ''file or directoryo such '')"
  by (simp add: nosuch_popen_def failed_child_world_def split_child_world_def
      reading_world_def thrown_exn_def outcome_fatal_def outcome_exn_def example_defs code_defs sys_defs Let_def upt_rec wait_once)

theorem launch_error_lost_witness:
  "outcome_exn (execute_process nosuch_popen failed_child_world)
     \<noteq> Some (CalledProcessError ''execve failed : No such file or directory'')
   \<and> outcome_fatal (execute_process nosuch_popen failed_child_world) \<noteq> None"
  using launch_error_lost by simp

end
